theory Spec2Isabelle
  imports Complex_Main "HOL-Library.Log_Nat"
begin

section \<open>JavaScript numbers\<close>

text \<open>
  The component computes with JavaScript numbers, which are IEEE 754 double precision
  values.  A number is modelled as one of the three special values or \<open>Fin r\<close>, the
  finite double whose value is the rational \<open>r\<close>.  The two zeros are one value: the sign
  of zero is not represented.
\<close>

datatype jsnum = NaN | PosInf | NegInf | Fin rat

text \<open>\<^verbatim>\<open>Number.isNaN\<close> and \<^verbatim>\<open>Number.isFinite\<close>.\<close>

fun isNaN :: "jsnum \<Rightarrow> bool" where
  "isNaN NaN = True"
| "isNaN _ = False"

fun isFinite :: "jsnum \<Rightarrow> bool" where
  "isFinite (Fin _) = True"
| "isFinite _ = False"

text \<open>
  Rounding a real result to a double, as every arithmetic operation does (round to
  nearest, ties to even).  \<open>exponent_of x\<close> is the binary exponent of \<open>x\<close>: the \<open>e\<close> with
  \<open>2 powi e \<le> \<bar>x\<bar>\<close> and \<open>\<bar>x\<bar> < 2 powi (e + 1)\<close>, computed from the bit lengths of
  numerator and denominator.  A double has 53 significant bits, so its last bit is worth
  \<open>2 powi (e - 52)\<close>, and never less than \<open>2 powi (- 1074)\<close> (the subnormal numbers); the
  result is the nearest multiple of that, and an infinity when it reaches \<open>2 ^ 1024\<close>.
\<close>

definition exponent_of :: "rat \<Rightarrow> int" where
  "exponent_of x =
     (case quotient_of \<bar>x\<bar> of
        (p, q) \<Rightarrow> (let d = bitlen p - bitlen q in if 2 powi d \<le> \<bar>x\<bar> then d else d - 1))"

definition round_half_even :: "rat \<Rightarrow> int" where
  "round_half_even z =
     (let n = \<lfloor>z\<rfloor>; f = z - of_int n
      in if f < 1 / 2 then n else if 1 / 2 < f then n + 1 else if even n then n else n + 1)"

definition round_double :: "rat \<Rightarrow> jsnum" where
  "round_double x =
     (if x = 0 then Fin 0
      else
        (let q = 2 powi (max (exponent_of x) (- 1022) - 52);
             y = of_int (round_half_even (x / q)) * q
         in if 2 ^ 1024 \<le> \<bar>y\<bar> then (if 0 < x then PosInf else NegInf) else Fin y))"

text \<open>
  \<^verbatim>\<open>x * c\<close> and \<^verbatim>\<open>x / c\<close> for a positive finite constant \<open>c\<close> (the source multiplies by
  10, 100 and 1000 and divides by 10): the exact result rounded to a double; the special
  values are kept.
\<close>

fun times_pos :: "jsnum \<Rightarrow> rat \<Rightarrow> jsnum" where
  "times_pos (Fin r) c = round_double (r * c)"
| "times_pos x c = x"

fun div_pos :: "jsnum \<Rightarrow> rat \<Rightarrow> jsnum" where
  "div_pos (Fin r) c = round_double (r / c)"
| "div_pos x c = x"

text \<open>
  \<^verbatim>\<open>Math.round\<close>: the nearest integer, a tie going up.  It is exact: the result is a
  double whenever the argument is one.
\<close>

fun math_round :: "jsnum \<Rightarrow> jsnum" where
  "math_round (Fin r) = Fin (of_int \<lfloor>r + 1 / 2\<rfloor>)"
| "math_round x = x"

text \<open>The comparison \<^verbatim>\<open>a <= b\<close>: false as soon as one side is NaN.\<close>

fun js_le :: "jsnum \<Rightarrow> jsnum \<Rightarrow> bool" where
  "js_le NaN _ = False"
| "js_le _ NaN = False"
| "js_le NegInf _ = True"
| "js_le _ PosInf = True"
| "js_le (Fin a) (Fin b) = (a \<le> b)"
| "js_le PosInf _ = False"
| "js_le _ NegInf = False"

text \<open>\<^verbatim>\<open>Math.min\<close> and \<^verbatim>\<open>Math.max\<close> of two arguments: NaN as soon as one argument is NaN.\<close>

definition math_min :: "jsnum \<Rightarrow> jsnum \<Rightarrow> jsnum" where
  "math_min a b = (if isNaN a \<or> isNaN b then NaN else if js_le a b then a else b)"

definition math_max :: "jsnum \<Rightarrow> jsnum \<Rightarrow> jsnum" where
  "math_max a b = (if isNaN a \<or> isNaN b then NaN else if js_le a b then b else a)"

section \<open>Constants\<close>

definition HOURS_TO_DISPLAY :: nat where
  "HOURS_TO_DISPLAY = 24"

definition FORECAST_INTERVAL_HOURS :: nat where
  "FORECAST_INTERVAL_HOURS = 3"

text \<open>\<^verbatim>\<open>Math.floor(HOURS_TO_DISPLAY / FORECAST_INTERVAL_HOURS)\<close>, on natural numbers.\<close>

definition FORECAST_POINTS :: nat where
  "FORECAST_POINTS = HOURS_TO_DISPLAY div FORECAST_INTERVAL_HOURS"

definition MIN_LOCATION_ACCURACY_METERS :: jsnum where
  "MIN_LOCATION_ACCURACY_METERS = Fin 100"

definition toPercent :: "jsnum \<Rightarrow> jsnum" where
  "toPercent fraction = math_max (Fin 0) (math_min (Fin 100) (math_round (times_pos fraction 100)))"

section \<open>The forecast sampler\<close>

text \<open>
  A raw forecast record as it comes out of the parsed JSON.  A field is \<open>None\<close> when
  it is absent or not of the type the source tests for (\<^verbatim>\<open>typeof x === "number"\<close>).
\<close>

record main_obj =
  m_temp :: "jsnum option"

record forecast_entry =
  dt :: "jsnum option"
  dt_txt :: "string option"
  main :: "main_obj option"
  e_pop :: "jsnum option"

record HourlyForecastPoint =
  time :: string
  temp :: jsnum
  pop :: jsnum

text \<open>What a \<^verbatim>\<open>throw\<close> carries: the abort exception of a cancelled request, or an error with its message.\<close>

datatype js_error = AbortError | Error string

text \<open>
  The time stamp of a record, in milliseconds.  \<^verbatim>\<open>Date.parse\<close> is a parameter
  (\<open>dateParse\<close>); an empty \<^verbatim>\<open>dt_txt\<close> is falsy.
\<close>

definition entry_timestamp :: "(string \<Rightarrow> jsnum) \<Rightarrow> forecast_entry \<Rightarrow> jsnum" where
  "entry_timestamp dateParse entry =
     (case dt entry of
        Some d \<Rightarrow> times_pos d 1000
      | None \<Rightarrow>
          (case dt_txt entry of
             Some s \<Rightarrow> (if s \<noteq> [] then dateParse s else NaN)
           | None \<Rightarrow> NaN))"

text \<open>\<^verbatim>\<open>entry.main?.temp\<close>, when it is a number.\<close>

definition entry_temperature :: "forecast_entry \<Rightarrow> jsnum option" where
  "entry_temperature entry = (case main entry of None \<Rightarrow> None | Some m \<Rightarrow> m_temp m)"

text \<open>
  \<^verbatim>\<open>TIME_FORMATTER.format(new Date(timestamp))\<close>.  A date holds a time value of at
  most 8.64e15 milliseconds in absolute value; beyond it the date is invalid and
  formatting it throws a RangeError.  The text produced for a valid time value (which
  the date cuts to whole milliseconds) is a parameter (\<open>fmt\<close>).
\<close>

definition MAX_TIME_VALUE :: rat where
  "MAX_TIME_VALUE = 8640000000000000"

definition formatTime :: "(rat \<Rightarrow> string) \<Rightarrow> jsnum \<Rightarrow> js_error + string" where
  "formatTime fmt timestamp =
     (case timestamp of
        Fin ms \<Rightarrow> (if \<bar>ms\<bar> \<le> MAX_TIME_VALUE then Inr (fmt ms) else Inl (Error ''Invalid time value''))
      | _ \<Rightarrow> Inl (Error ''Invalid time value''))"

text \<open>The callback of \<^verbatim>\<open>.map\<close>: \<open>Inr None\<close> is its \<^verbatim>\<open>null\<close>, an array element \<open>None\<close> a falsy entry.\<close>

definition sampleEntry ::
  "(string \<Rightarrow> jsnum) \<Rightarrow> (rat \<Rightarrow> string) \<Rightarrow> forecast_entry option \<Rightarrow> js_error + HourlyForecastPoint option" where
  "sampleEntry dateParse fmt e =
     (case e of
        None \<Rightarrow> Inr None
      | Some entry \<Rightarrow>
          (let timestamp = entry_timestamp dateParse entry in
           if \<not> isFinite timestamp then Inr None
           else
             (case entry_temperature entry of
                None \<Rightarrow> Inr None
              | Some temperature \<Rightarrow>
                  if isNaN temperature then Inr None
                  else
                    (let probability =
                           (case e_pop entry of
                              Some p \<Rightarrow> (if isFinite p then p else Fin 0)
                            | None \<Rightarrow> Fin 0)
                     in case formatTime fmt timestamp of
                          Inl err \<Rightarrow> Inl err
                        | Inr label \<Rightarrow>
                            Inr (Some \<lparr> time = label,
                                        temp = div_pos (math_round (times_pos temperature 10)) 10,
                                        pop = toPercent probability \<rparr>)))))"

text \<open>\<^verbatim>\<open>.map\<close> runs the callback on the elements in order; the first throw ends it.\<close>

fun mapEntries ::
  "(string \<Rightarrow> jsnum) \<Rightarrow> (rat \<Rightarrow> string) \<Rightarrow> forecast_entry option list \<Rightarrow> js_error + HourlyForecastPoint option list" where
  "mapEntries dateParse fmt [] = Inr []"
| "mapEntries dateParse fmt (e # es) =
     (case sampleEntry dateParse fmt e of
        Inl err \<Rightarrow> Inl err
      | Inr p \<Rightarrow>
          (case mapEntries dateParse fmt es of
             Inl err \<Rightarrow> Inl err
           | Inr ps \<Rightarrow> Inr (p # ps)))"

text \<open>\<^verbatim>\<open>.filter(point => point !== null)\<close>.\<close>

fun filterNonNull :: "'a option list \<Rightarrow> 'a list" where
  "filterNonNull [] = []"
| "filterNonNull (None # ps) = filterNonNull ps"
| "filterNonNull (Some p # ps) = p # filterNonNull ps"

text \<open>The argument is \<open>None\<close> when it is not an array.\<close>

definition buildThreeHourlyForecast ::
  "(string \<Rightarrow> jsnum) \<Rightarrow> (rat \<Rightarrow> string) \<Rightarrow> forecast_entry option list option \<Rightarrow> js_error + HourlyForecastPoint list" where
  "buildThreeHourlyForecast dateParse fmt forecast =
     (case forecast of
        None \<Rightarrow> Inr []
      | Some entries \<Rightarrow>
          (case mapEntries dateParse fmt (take FORECAST_POINTS entries) of
             Inl err \<Rightarrow> Inl err
           | Inr ps \<Rightarrow> Inr (filterNonNull ps)))"

section \<open>The weather card\<close>

subsection \<open>Data\<close>

text \<open>A position report of the platform: its coordinates, flattened, and its time stamp.\<close>

record GeolocationPosition =
  latitude :: jsnum
  longitude :: jsnum
  accuracy :: jsnum
  timestamp :: nat

text \<open>The value of the \<^verbatim>\<open>weather\<close> state.\<close>

record weather_info =
  w_name :: string
  w_temp :: jsnum
  w_description :: string
  w_iconCode :: string

record http_response =
  ok :: bool
  status :: nat

record weather_desc =
  description :: string
  icon :: string

text \<open>
  The parsed bodies.  \<open>cj_detail\<close> and \<open>fj_detail\<close> stand for \<^verbatim>\<open>json.message || json.error\<close>,
  empty when that is falsy; \<open>cj_weather\<close> and \<open>fj_list\<close> are \<open>None\<close> when the field is not
  an array.
\<close>

record current_json =
  cj_detail :: string
  cj_temp :: "jsnum option"
  cj_weather :: "weather_desc option list option"
  cj_name :: string

record forecast_json =
  fj_detail :: string
  fj_list :: "forecast_entry option list option"

text \<open>
  What the component reads from its surroundings: the two keys (empty when not
  configured), whether \<^verbatim>\<open>navigator.geolocation\<close> and \<^verbatim>\<open>window\<close> exist, the handles
  that \<^verbatim>\<open>watchPosition\<close> and \<^verbatim>\<open>setTimeout\<close> return, and the two library functions of
  the sampler.
\<close>

record environment =
  OPENWEATHER_API_KEY :: string
  OPENCAGE_API_KEY :: string
  has_geolocation :: bool
  has_window :: bool
  new_watch_id :: nat
  new_timer_id :: nat
  date_parse :: "string \<Rightarrow> jsnum"
  time_format :: "rat \<Rightarrow> string"

text \<open>
  A call of \<^verbatim>\<open>fetchWeatherForPosition\<close> that is suspended at one of its three awaits:
  the two weather requests, the two bodies, the place name.  At the third await the
  values that the snapshot will be built from are already fixed.
\<close>

datatype task =
    AwaitFetch GeolocationPosition
  | AwaitJson GeolocationPosition http_response http_response
  | AwaitGeocode GeolocationPosition weather_info "HourlyForecastPoint list"
  | Completed

text \<open>What the component does to the outside, in the order it does it.\<close>

datatype effect =
    SetWeather "weather_info option"
  | SetHourlyForecast "HourlyForecastPoint list"
  | SetLoading bool
  | SetError "string option"
  | ClearWatch nat
  | ClearTimeout nat
  | Abort
  | CallFetchWeather GeolocationPosition
  | FetchCurrent jsnum jsnum
  | FetchForecast jsnum jsnum
  | FetchGeocode jsnum jsnum

text \<open>
  The four React states, the variables of the effect's closure, the suspended calls and
  the trace of effects.
\<close>

record state =
  weather :: "weather_info option"
  hourlyForecast :: "HourlyForecastPoint list"
  loading :: bool
  error :: "string option"
  isCancelled :: bool
  watchId :: "nat option"
  fallbackTimer :: "nat option"
  bestPosition :: "GeolocationPosition option"
  hasFetched :: bool
  tasks :: "task list"
  trace :: "effect list"

subsection \<open>State setters and helpers of the closure\<close>

definition setWeather :: "weather_info option \<Rightarrow> state \<Rightarrow> state" where
  "setWeather v s = s\<lparr>weather := v, trace := trace s @ [SetWeather v]\<rparr>"

definition setHourlyForecast :: "HourlyForecastPoint list \<Rightarrow> state \<Rightarrow> state" where
  "setHourlyForecast v s = s\<lparr>hourlyForecast := v, trace := trace s @ [SetHourlyForecast v]\<rparr>"

definition setLoading :: "bool \<Rightarrow> state \<Rightarrow> state" where
  "setLoading v s = s\<lparr>loading := v, trace := trace s @ [SetLoading v]\<rparr>"

definition setError :: "string option \<Rightarrow> state \<Rightarrow> state" where
  "setError v s = s\<lparr>error := v, trace := trace s @ [SetError v]\<rparr>"

definition stopWatching :: "state \<Rightarrow> state" where
  "stopWatching s =
     (let s1 = (case watchId s of
                  Some w \<Rightarrow> s\<lparr>watchId := None, trace := trace s @ [ClearWatch w]\<rparr>
                | None \<Rightarrow> s)
      in case fallbackTimer s1 of
           Some t \<Rightarrow> s1\<lparr>fallbackTimer := None, trace := trace s1 @ [ClearTimeout t]\<rparr>
         | None \<Rightarrow> s1)"

definition describeGeoError :: "nat \<Rightarrow> string \<Rightarrow> string" where
  "describeGeoError code message =
     (if code = 1 then ''Location permission was denied.''
      else if code = 2 then ''Unable to determine your location.''
      else if code = 3 then ''Timed out while trying to retrieve your location.''
      else if message \<noteq> [] then message
      else ''Unable to retrieve your location.'')"

definition reportLocationError :: "string \<Rightarrow> state \<Rightarrow> state" where
  "reportLocationError message s =
     (if isCancelled s then s
      else setLoading False (setError (Some message) (setHourlyForecast [] (setWeather None (stopWatching s)))))"

subsection \<open>Fetching the weather\<close>

text \<open>
  \<^verbatim>\<open>fetchWeatherForPosition\<close> up to its first await.  The call itself is recorded in the
  trace; the two requests are issued together and the call is suspended.
\<close>

definition fetchWeatherForPosition :: "environment \<Rightarrow> GeolocationPosition \<Rightarrow> state \<Rightarrow> state" where
  "fetchWeatherForPosition env position s0 =
     (let s = s0\<lparr>trace := trace s0 @ [CallFetchWeather position]\<rparr> in
      if isCancelled s then s
      else if isNaN (latitude position) \<or> isNaN (longitude position)
        then reportLocationError ''Received invalid coordinates from geolocation.'' s
      else if OPENWEATHER_API_KEY env = []
        then reportLocationError ''Missing OpenWeatherMap API key (VITE_OPENWEATHER_API_KEY).'' s
      else
        (let s1 = setError None (setLoading True s) in
         s1\<lparr>trace := trace s1 @ [FetchCurrent (latitude position) (longitude position),
                                   FetchForecast (latitude position) (longitude position)],
            tasks := tasks s1 @ [AwaitFetch position]\<rparr>))"

text \<open>The \<^verbatim>\<open>finally\<close> block, and the \<^verbatim>\<open>catch\<close> block followed by it.\<close>

definition finallyBlock :: "state \<Rightarrow> state" where
  "finallyBlock s = (if \<not> isCancelled s then setLoading False s else s)"

definition fetchFailed :: "js_error \<Rightarrow> state \<Rightarrow> state" where
  "fetchFailed err s =
     finallyBlock
       (case err of
          AbortError \<Rightarrow> s
        | Error m \<Rightarrow>
            if isCancelled s then s
            else setError (Some (if m \<noteq> [] then m else ''Failed to fetch weather data.''))
                   (setHourlyForecast [] (setWeather None s)))"

text \<open>A status code in decimal, as the template string prints it.\<close>

fun show_nat :: "nat \<Rightarrow> string" where
  "show_nat n =
     (if n < 10 then [''0123456789'' ! n]
      else show_nat (n div 10) @ [''0123456789'' ! (n mod 10)])"

declare show_nat.simps [simp del]

definition httpErrorMessage :: "nat \<Rightarrow> string \<Rightarrow> string" where
  "httpErrorMessage st detail =
     (if detail \<noteq> [] then show_nat st @ '' '' @ detail else ''HTTP '' @ show_nat st)"

text \<open>
  From the two responses and their bodies (\<open>None\<close> when a body does not parse) to the
  values of the snapshot and the sampled forecast, or the error that is thrown.
\<close>

definition prepareWeather ::
  "environment \<Rightarrow> http_response \<Rightarrow> http_response \<Rightarrow> current_json option \<Rightarrow> forecast_json option
     \<Rightarrow> js_error + weather_info \<times> HourlyForecastPoint list" where
  "prepareWeather env currentRes forecastRes currentJson forecastJson =
     (if \<not> ok currentRes then
        Inl (Error (httpErrorMessage (status currentRes)
                      (case currentJson of None \<Rightarrow> [] | Some j \<Rightarrow> cj_detail j)))
      else if \<not> ok forecastRes then
        Inl (Error (httpErrorMessage (status forecastRes)
                      (case forecastJson of None \<Rightarrow> [] | Some j \<Rightarrow> fj_detail j)))
      else
        (case currentJson of
           None \<Rightarrow> Inl (Error ''Current weather data is unavailable.'')
         | Some cj \<Rightarrow>
             (case (cj_temp cj, cj_weather cj) of
                (Some t, Some (Some w # _)) \<Rightarrow>
                  (case forecastJson of
                     None \<Rightarrow> Inl (Error ''Hourly forecast data is unavailable.'')
                   | Some fj \<Rightarrow>
                       (case fj_list fj of
                          None \<Rightarrow> Inl (Error ''Hourly forecast data is unavailable.'')
                        | Some [] \<Rightarrow> Inl (Error ''Hourly forecast data is unavailable.'')
                        | Some entries \<Rightarrow>
                            (case buildThreeHourlyForecast (date_parse env) (time_format env) (Some entries) of
                               Inl err \<Rightarrow> Inl err
                             | Inr hourlyData \<Rightarrow>
                                 if hourlyData = [] then Inl (Error ''Unable to prepare hourly forecast data.'')
                                 else Inr (\<lparr> w_name = cj_name cj, w_temp = t,
                                             w_description = description w, w_iconCode = icon w \<rparr>,
                                           hourlyData))))
              | _ \<Rightarrow> Inl (Error ''Current weather data is unavailable.''))))"

text \<open>The three resumptions of a suspended call.  \<open>i\<close> is the position of the call in \<open>tasks\<close>.\<close>

datatype fetch_outcome = Rejected js_error | Responses http_response http_response

definition fetchSettled :: "nat \<Rightarrow> fetch_outcome \<Rightarrow> state \<Rightarrow> state" where
  "fetchSettled i outcome s =
     (if i < length (tasks s) then
        (case tasks s ! i of
           AwaitFetch position \<Rightarrow>
             (case outcome of
                Rejected err \<Rightarrow> fetchFailed err (s\<lparr>tasks := (tasks s)[i := Completed]\<rparr>)
              | Responses currentRes forecastRes \<Rightarrow>
                  s\<lparr>tasks := (tasks s)[i := AwaitJson position currentRes forecastRes]\<rparr>)
         | _ \<Rightarrow> s)
      else s)"

text \<open>
  Once both bodies are read the call validates them, samples the forecast and only then
  calls \<^verbatim>\<open>resolveLocationName\<close>, which issues its request when its key is configured.
\<close>

definition jsonSettled :: "environment \<Rightarrow> nat \<Rightarrow> current_json option \<Rightarrow> forecast_json option \<Rightarrow> state \<Rightarrow> state" where
  "jsonSettled env i currentJson forecastJson s =
     (if i < length (tasks s) then
        (case tasks s ! i of
           AwaitJson position currentRes forecastRes \<Rightarrow>
             (case prepareWeather env currentRes forecastRes currentJson forecastJson of
                Inl err \<Rightarrow> fetchFailed err (s\<lparr>tasks := (tasks s)[i := Completed]\<rparr>)
              | Inr (w, hourlyData) \<Rightarrow>
                  s\<lparr>tasks := (tasks s)[i := AwaitGeocode position w hourlyData],
                    trace := trace s @
                      (if OPENCAGE_API_KEY env \<noteq> []
                       then [FetchGeocode (latitude position) (longitude position)] else [])\<rparr>)
         | _ \<Rightarrow> s)
      else s)"

text \<open>
  \<^verbatim>\<open>resolveLocationName\<close> never throws: it returns a name or \<^verbatim>\<open>null\<close>, and \<^verbatim>\<open>null\<close>
  without a key.  \<open>name\<close> is what its request produced.
\<close>

definition geocodeSettled :: "environment \<Rightarrow> nat \<Rightarrow> string option \<Rightarrow> state \<Rightarrow> state" where
  "geocodeSettled env i name s =
     (if i < length (tasks s) then
        (case tasks s ! i of
           AwaitGeocode position w hourlyData \<Rightarrow>
             (let geocodedName = (if OPENCAGE_API_KEY env = [] then None else name);
                  s1 = s\<lparr>tasks := (tasks s)[i := Completed]\<rparr>
              in if isCancelled s1 then s1
                 else finallyBlock
                        (setHourlyForecast hourlyData
                           (setWeather
                              (Some (w\<lparr>w_name :=
                                         (case geocodedName of
                                            Some n \<Rightarrow> (if n \<noteq> [] then n else w_name w)
                                          | None \<Rightarrow> w_name w)\<rparr>))
                              s1)))
         | _ \<Rightarrow> s)
      else s)"

subsection \<open>Acquiring the position\<close>

definition maybeUsePosition :: "environment \<Rightarrow> GeolocationPosition \<Rightarrow> state \<Rightarrow> state" where
  "maybeUsePosition env position s =
     (if isCancelled s \<or> hasFetched s then s
      else if isNaN (latitude position) \<or> isNaN (longitude position) then s
      else
        (let s1 = s\<lparr>bestPosition := Some position\<rparr>;
             accuracyValue = (if isFinite (accuracy position) then accuracy position else PosInf)
         in if js_le accuracyValue MIN_LOCATION_ACCURACY_METERS
            then fetchWeatherForPosition env position (stopWatching (s1\<lparr>hasFetched := True\<rparr>))
            else s1))"

definition handleGeoError :: "environment \<Rightarrow> nat \<Rightarrow> string \<Rightarrow> state \<Rightarrow> state" where
  "handleGeoError env code message s =
     (if isCancelled s then s
      else
        (case bestPosition s of
           Some best \<Rightarrow>
             if \<not> hasFetched s
             then fetchWeatherForPosition env best (stopWatching (s\<lparr>hasFetched := True\<rparr>))
             else reportLocationError (describeGeoError code message) s
         | None \<Rightarrow> reportLocationError (describeGeoError code message) s))"

text \<open>The callback of the fallback timer.\<close>

definition fallbackTimerFired :: "environment \<Rightarrow> state \<Rightarrow> state" where
  "fallbackTimerFired env s =
     (if isCancelled s \<or> hasFetched s then s
      else
        (case bestPosition s of
           Some best \<Rightarrow> fetchWeatherForPosition env best (stopWatching (s\<lparr>hasFetched := True\<rparr>))
         | None \<Rightarrow> reportLocationError ''Unable to refine your location.'' s))"

text \<open>The cleanup function of the effect.\<close>

definition cleanup :: "state \<Rightarrow> state" where
  "cleanup s = (let s1 = stopWatching (s\<lparr>isCancelled := True\<rparr>) in s1\<lparr>trace := trace s1 @ [Abort]\<rparr>)"

subsection \<open>Mounting and running\<close>

definition initial :: state where
  "initial = \<lparr> weather = None, hourlyForecast = [], loading = True, error = None,
               isCancelled = False, watchId = None, fallbackTimer = None,
               bestPosition = None, hasFetched = False, tasks = [], trace = [] \<rparr>"

text \<open>The body of the effect.\<close>

definition mount :: "environment \<Rightarrow> state" where
  "mount env =
     (if \<not> has_geolocation env
      then setLoading False (setError (Some ''Geolocation is not supported by your browser.'') initial)
      else initial\<lparr>watchId := Some (new_watch_id env),
                   fallbackTimer := (if has_window env then Some (new_timer_id env) else None)\<rparr>)"

text \<open>
  What the event loop can run next: a callback of the position stream, the timer, the
  cleanup, or the resumption of a suspended call.
\<close>

datatype event =
    PositionUpdate GeolocationPosition
  | PositionError nat string
  | TimerFired
  | Cleanup
  | FetchSettled nat fetch_outcome
  | JsonSettled nat "current_json option" "forecast_json option"
  | GeocodeSettled nat "string option"

fun step :: "environment \<Rightarrow> event \<Rightarrow> state \<Rightarrow> state" where
  "step env (PositionUpdate position) s = maybeUsePosition env position s"
| "step env (PositionError code message) s = handleGeoError env code message s"
| "step env TimerFired s = fallbackTimerFired env s"
| "step env Cleanup s = cleanup s"
| "step env (FetchSettled i outcome) s = fetchSettled i outcome s"
| "step env (JsonSettled i currentJson forecastJson) s = jsonSettled env i currentJson forecastJson s"
| "step env (GeocodeSettled i name) s = geocodeSettled env i name s"

fun run :: "environment \<Rightarrow> state \<Rightarrow> event list \<Rightarrow> state" where
  "run env s [] = s"
| "run env s (e # es) = run env (step env e s) es"

text \<open>Projections of the trace.\<close>

fun fetchCallsOf :: "effect list \<Rightarrow> GeolocationPosition list" where
  "fetchCallsOf [] = []"
| "fetchCallsOf (CallFetchWeather p # fs) = p # fetchCallsOf fs"
| "fetchCallsOf (_ # fs) = fetchCallsOf fs"

definition fetchCalls :: "state \<Rightarrow> GeolocationPosition list" where
  "fetchCalls s = fetchCallsOf (trace s)"

fun isEmission :: "effect \<Rightarrow> bool" where
  "isEmission (SetWeather _) = True"
| "isEmission (SetHourlyForecast _) = True"
| "isEmission (SetLoading _) = True"
| "isEmission (SetError _) = True"
| "isEmission _ = False"

definition emissions :: "state \<Rightarrow> effect list" where
  "emissions s = filter isEmission (trace s)"

fun isRequest :: "effect \<Rightarrow> bool" where
  "isRequest (FetchCurrent _ _) = True"
| "isRequest (FetchForecast _ _) = True"
| "isRequest (FetchGeocode _ _) = True"
| "isRequest _ = False"

definition requests :: "state \<Rightarrow> effect list" where
  "requests s = filter isRequest (trace s)"

definition isGeocodeRequest :: "effect \<Rightarrow> bool" where
  "isGeocodeRequest f = (case f of FetchGeocode _ _ \<Rightarrow> True | _ \<Rightarrow> False)"

definition geocodeRequests :: "state \<Rightarrow> effect list" where
  "geocodeRequests s = filter isGeocodeRequest (trace s)"

subsection \<open>Predicates used in the statements\<close>

text \<open>
  A record that passes the checks of the sampler: it is not falsy, its time stamp is
  finite, and its temperature is a number other than NaN.
\<close>

definition passesChecks :: "(string \<Rightarrow> jsnum) \<Rightarrow> forecast_entry option \<Rightarrow> bool" where
  "passesChecks dateParse e =
     (case e of
        None \<Rightarrow> False
      | Some entry \<Rightarrow>
          isFinite (entry_timestamp dateParse entry) \<and>
          (case entry_temperature entry of Some t \<Rightarrow> \<not> isNaN t | None \<Rightarrow> False))"

text \<open>A record whose time stamp is a time value that a date can hold.\<close>

definition dateHolds :: "(string \<Rightarrow> jsnum) \<Rightarrow> forecast_entry option \<Rightarrow> bool" where
  "dateHolds dateParse e =
     (case e of
        None \<Rightarrow> False
      | Some entry \<Rightarrow>
          (case entry_timestamp dateParse entry of
             Fin ms \<Rightarrow> \<bar>ms\<bar> \<le> MAX_TIME_VALUE
           | _ \<Rightarrow> False))"

text \<open>A record that does both.\<close>

definition validEntry :: "(string \<Rightarrow> jsnum) \<Rightarrow> forecast_entry option \<Rightarrow> bool" where
  "validEntry dateParse e = (passesChecks dateParse e \<and> dateHolds dateParse e)"

text \<open>
  What the sampler is expected to make of one record: nothing of a record that fails a
  check, and of one that passes the point with the formatted time, the temperature in
  tenths and the percentage.
\<close>

definition keptPoint ::
  "(string \<Rightarrow> jsnum) \<Rightarrow> (rat \<Rightarrow> string) \<Rightarrow> forecast_entry option \<Rightarrow> HourlyForecastPoint option" where
  "keptPoint dateParse fmt e =
     (case e of
        None \<Rightarrow> None
      | Some entry \<Rightarrow>
          (case (entry_timestamp dateParse entry, entry_temperature entry) of
             (Fin ms, Some t) \<Rightarrow>
               if isNaN t then None
               else Some \<lparr> time = fmt ms,
                           temp = div_pos (math_round (times_pos t 10)) 10,
                           pop = toPercent (case e_pop entry of
                                              Some (Fin p) \<Rightarrow> Fin p
                                            | _ \<Rightarrow> Fin 0) \<rparr>
           | _ \<Rightarrow> None))"



text \<open>Coordinates that pass the guard of \<^verbatim>\<open>maybeUsePosition\<close>.\<close>

definition coordsNotNaN :: "GeolocationPosition \<Rightarrow> bool" where
  "coordsNotNaN p = (\<not> isNaN (latitude p) \<and> \<not> isNaN (longitude p))"

text \<open>The retained fix and every fix a fetch was called with have such coordinates.\<close>

definition usedFixesOk :: "state \<Rightarrow> bool" where
  "usedFixesOk s =
     ((case bestPosition s of Some b \<Rightarrow> coordsNotNaN b | None \<Rightarrow> True) \<and>
      list_all coordsNotNaN (fetchCalls s))"


text \<open>
  The contract of the platform: a callback of the position stream runs only while the
  watch is registered, the timer's only while it is pending.
\<close>

fun deliverable :: "state \<Rightarrow> event \<Rightarrow> bool" where
  "deliverable s (PositionUpdate _) = (watchId s \<noteq> None)"
| "deliverable s (PositionError _ _) = (watchId s \<noteq> None)"
| "deliverable s TimerFired = (fallbackTimer s \<noteq> None)"
| "deliverable s _ = True"

fun delivered :: "environment \<Rightarrow> state \<Rightarrow> event list \<Rightarrow> bool" where
  "delivered env s [] = True"
| "delivered env s (e # es) = (deliverable s e \<and> delivered env (step env e s) es)"

text \<open>
  An error is shown without weather data; the acquisition is torn down once a fetch was
  decided; there is at most one call of the fetch, and while it is suspended no error is
  shown.
\<close>

definition consistent :: "state \<Rightarrow> bool" where
  "consistent s =
     ((error s = None \<or> (weather s = None \<and> hourlyForecast s = [])) \<and>
      (if hasFetched s then watchId s = None \<and> fallbackTimer s = None else tasks s = []) \<and>
      (case tasks s of [] \<Rightarrow> True | [t] \<Rightarrow> t = Completed \<or> error s = None | _ \<Rightarrow> False))"

subsection \<open>Sample inputs\<close>

definition sample_parse :: "string \<Rightarrow> jsnum" where
  "sample_parse s = NaN"

definition sample_format :: "rat \<Rightarrow> string" where
  "sample_format ms = ''--:--''"

text \<open>
  The doubles that the decimal numbers 21.36, 0.42 and 21.4 denote, and the record
  \<^verbatim>\<open>{dt: 1700000000, main: {temp: 21.36}, pop: 0.42}\<close>.
\<close>

definition double_21_36 :: rat where
  "double_21_36 = 1503076375634903 / 70368744177664"

definition double_0_42 :: rat where
  "double_0_42 = 7566047373982433 / 18014398509481984"

definition double_21_4 :: rat where
  "double_21_4 = 3011782250804019 / 140737488355328"

definition sample_entry :: forecast_entry where
  "sample_entry = \<lparr> dt = Some (Fin 1700000000), dt_txt = None,
                    main = Some \<lparr> m_temp = Some (Fin double_21_36) \<rparr>, e_pop = Some (Fin double_0_42) \<rparr>"

text \<open>
  The same record with the largest power of two among the doubles as its temperature,
  and with a time stamp of 8640000000001 seconds, one second past what a date can hold.
\<close>

definition hot_entry :: forecast_entry where
  "hot_entry = sample_entry\<lparr>main := Some \<lparr> m_temp = Some (Fin (2 ^ 1023)) \<rparr>\<rparr>"

definition late_entry :: forecast_entry where
  "late_entry = sample_entry\<lparr>dt := Some (Fin 8640000000001)\<rparr>"

definition sample_env :: environment where
  "sample_env = \<lparr> OPENWEATHER_API_KEY = ''w'', OPENCAGE_API_KEY = ''g'',
                  has_geolocation = True, has_window = True, new_watch_id = 1, new_timer_id = 2,
                  date_parse = sample_parse, time_format = sample_format \<rparr>"

text \<open>
  Position reports: accurate to 20 and to 150 metres at one place, to 500 metres at
  another, and one with an infinite latitude.
\<close>

definition fix20 :: GeolocationPosition where
  "fix20 = \<lparr> latitude = Fin 35, longitude = Fin 139, accuracy = Fin 20, timestamp = 3 \<rparr>"

definition fix150 :: GeolocationPosition where
  "fix150 = \<lparr> latitude = Fin 35, longitude = Fin 139, accuracy = Fin 150, timestamp = 1 \<rparr>"

definition fix500 :: GeolocationPosition where
  "fix500 = \<lparr> latitude = Fin 36, longitude = Fin 140, accuracy = Fin 500, timestamp = 2 \<rparr>"

definition fixInf :: GeolocationPosition where
  "fixInf = \<lparr> latitude = PosInf, longitude = Fin 139, accuracy = Fin 20, timestamp = 4 \<rparr>"

text \<open>Two successful responses and their bodies.\<close>

definition ok_response :: http_response where
  "ok_response = \<lparr> ok = True, status = 200 \<rparr>"

definition sample_current :: current_json where
  "sample_current = \<lparr> cj_detail = [], cj_temp = Some (Fin 18),
                      cj_weather = Some [Some \<lparr> description = ''clear sky'', icon = ''01d'' \<rparr>],
                      cj_name = ''Tokyo'' \<rparr>"

definition sample_forecast :: forecast_json where
  "sample_forecast = \<lparr> fj_detail = [], fj_list = Some [Some sample_entry] \<rparr>"

section \<open>Properties of the rounding\<close>

lemma exponent_bounds:
  assumes "x \<noteq> 0"
  shows "2 powi exponent_of x \<le> \<bar>x\<bar>" and "\<bar>x\<bar> < 2 powi (exponent_of x + 1)"
proof -
  obtain p q where pq: "quotient_of \<bar>x\<bar> = (p, q)" by (cases "quotient_of \<bar>x\<bar>")
  then have q: "0 < q" and x: "\<bar>x\<bar> = of_int p / of_int q"
    by (simp_all add: quotient_of_denom_pos quotient_of_div)
  from assms have "0 < \<bar>x\<bar>" by simp
  with x q have p: "0 < p" by (simp add: zero_less_divide_iff)
  define a where "a = bitlen p"
  define b where "b = bitlen q"
  from bitlen_bounds [OF p] have pa: "2 ^ nat (a - 1) \<le> p" "p < 2 ^ nat a" by (simp_all add: a_def)
  from bitlen_bounds [OF q] have qb: "2 ^ nat (b - 1) \<le> q" "q < 2 ^ nat b" by (simp_all add: b_def)
  from p have a1: "1 \<le> a" unfolding a_def using bitlen_eq_zero_iff [of p] bitlen_nonneg [of p] by linarith
  from q have b1: "1 \<le> b" unfolding b_def using bitlen_eq_zero_iff [of q] bitlen_nonneg [of q] by linarith
  have rp: "(2::rat) ^ nat (a - 1) \<le> of_int p" "(of_int p :: rat) < 2 ^ nat a"
    using pa by (metis of_int_le_iff of_int_numeral of_int_power, metis of_int_less_iff of_int_numeral of_int_power)
  have rq: "(2::rat) ^ nat (b - 1) \<le> of_int q" "(of_int q :: rat) < 2 ^ nat b"
    using qb by (metis of_int_le_iff of_int_numeral of_int_power, metis of_int_less_iff of_int_numeral of_int_power)
  have qpos: "(0::rat) < of_int q" using q by simp
  have low: "(2::rat) powi (a - b - 1) < \<bar>x\<bar>"
  proof -
    have "(2::rat) powi (a - b - 1) = 2 powi (a - 1) / 2 powi b"
      by (simp add: power_int_diff [symmetric] algebra_simps)
    also have "\<dots> = 2 ^ nat (a - 1) / 2 ^ nat b"
      using a1 b1 by (simp add: power_int_nonneg_exp)
    also have "\<dots> \<le> of_int p / 2 ^ nat b"
      using rp(1) by (simp add: divide_right_mono)
    also have "\<dots> < of_int p / of_int q"
      using rq(2) qpos p by (simp add: divide_strict_left_mono)
    finally show ?thesis by (simp add: x)
  qed
  have up: "\<bar>x\<bar> < (2::rat) powi (a - b + 1)"
  proof -
    have "\<bar>x\<bar> = of_int p / of_int q" by (rule x)
    also have "\<dots> < 2 ^ nat a / of_int q"
      using rp(2) qpos by (simp add: divide_strict_right_mono)
    also have "\<dots> \<le> 2 ^ nat a / 2 ^ nat (b - 1)"
      using rq(1) by (intro frac_le) simp_all
    also have "\<dots> = 2 powi a / 2 powi (b - 1)"
      using a1 b1 by (simp add: power_int_nonneg_exp)
    also have "\<dots> = 2 powi (a - b + 1)"
      by (simp add: power_int_diff [symmetric] algebra_simps)
    finally show ?thesis .
  qed
  have e: "exponent_of x = (if 2 powi (a - b) \<le> \<bar>x\<bar> then a - b else a - b - 1)"
    by (simp add: exponent_of_def pq a_def b_def Let_def)
  show "2 powi exponent_of x \<le> \<bar>x\<bar>" using low by (simp add: e)
  show "\<bar>x\<bar> < 2 powi (exponent_of x + 1)" using up by (auto simp: e)
qed

lemma exponent_unique:
  assumes "2 powi e \<le> \<bar>x\<bar>" and "\<bar>x\<bar> < 2 powi (e + 1)"
  shows "exponent_of x = e"
proof -
  have x: "x \<noteq> 0"
  proof
    assume "x = 0"
    with assms(1) have "(2::rat) powi e \<le> 0" by simp
    moreover have "(0::rat) < 2 powi e" by simp
    ultimately show False by linarith
  qed
  note b = exponent_bounds [OF x]
  have "(2::rat) powi e < 2 powi (exponent_of x + 1)" using assms(1) b(2) by simp
  then have 1: "e < exponent_of x + 1"
    using power_int_increasing [of "exponent_of x + 1" e "2::rat"] by (cases "e < exponent_of x + 1") auto
  have "(2::rat) powi exponent_of x < 2 powi (e + 1)" using assms(2) b(1) by simp
  then have 2: "exponent_of x < e + 1"
    using power_int_increasing [of "e + 1" "exponent_of x" "2::rat"] by (cases "exponent_of x < e + 1") auto
  from 1 2 show ?thesis by simp
qed

lemma round_half_even_error: "\<bar>of_int (round_half_even z) - z\<bar> \<le> 1 / 2"
proof -
  have "of_int \<lfloor>z\<rfloor> \<le> z" "z < of_int \<lfloor>z\<rfloor> + 1" by linarith+
  then show ?thesis by (auto simp: round_half_even_def Let_def)
qed

lemma round_half_even_eqI:
  assumes "\<bar>of_int n - z\<bar> < 1 / 2"
  shows "round_half_even z = n"
proof -
  from round_half_even_error [of z] assms
  have "\<bar>(of_int (round_half_even z) :: rat) - of_int n\<bar> < 1" by linarith
  then have "\<bar>(of_int (round_half_even z - n) :: rat)\<bar> < 1" by simp
  then have "\<bar>round_half_even z - n\<bar> < 1" by (metis of_int_abs of_int_less_1_iff)
  then show ?thesis by simp
qed

lemma round_double_eval:
  assumes "2 powi e \<le> \<bar>x\<bar>" and "\<bar>x\<bar> < 2 powi (e + 1)" and "- 1022 \<le> e"
    and "\<bar>of_int n - x / 2 powi (e - 52)\<bar> < 1 / 2"
    and "\<bar>of_int n * 2 powi (e - 52)\<bar> < (2::rat) ^ 1024"
  shows "round_double x = Fin (of_int n * 2 powi (e - 52))"
proof -
  have x: "x \<noteq> 0"
  proof
    assume "x = 0"
    with assms(1) have "(2::rat) powi e \<le> 0" by simp
    moreover have "(0::rat) < 2 powi e" by simp
    ultimately show False by linarith
  qed
  have e: "exponent_of x = e" by (rule exponent_unique [OF assms(1,2)])
  have m: "max e (- 1022) = e" using assms(3) by simp
  have r: "round_half_even (x / 2 powi (e - 52)) = n" by (rule round_half_even_eqI [OF assms(4)])
  show ?thesis using x assms(5) by (simp add: round_double_def e m r Let_def)
qed

lemma round_double_error:
  "\<exists>y. \<bar>y - x\<bar> \<le> \<bar>x\<bar> / 2 ^ 53 + 2 powi (- 1075) \<and>
       round_double x = (if 2 ^ 1024 \<le> \<bar>y\<bar> then (if 0 < x then PosInf else NegInf) else Fin y)"
proof (cases "x = 0")
  case True
  then show ?thesis by (intro exI [of _ 0]) (simp add: round_double_def)
next
  case False
  define q :: rat where "q = 2 powi (max (exponent_of x) (- 1022) - 52)"
  define y where "y = of_int (round_half_even (x / q)) * q"
  have qpos: "0 < q" by (simp add: q_def)
  have "y - x = (of_int (round_half_even (x / q)) - x / q) * q"
    using qpos by (simp add: y_def left_diff_distrib)
  then have "\<bar>y - x\<bar> = \<bar>of_int (round_half_even (x / q)) - x / q\<bar> * q"
    using qpos by (simp add: abs_mult)
  also have "\<dots> \<le> 1 / 2 * q"
    using round_half_even_error [of "x / q"] qpos by (intro mult_right_mono) simp_all
  finally have err: "\<bar>y - x\<bar> \<le> q / 2" by simp
  have "q \<le> \<bar>x\<bar> / 2 ^ 52 + 2 powi (- 1074)"
  proof (cases "- 1022 \<le> exponent_of x")
    case True
    then have "q = 2 powi exponent_of x / 2 ^ 52"
      by (simp add: q_def power_int_diff)
    also have "\<dots> \<le> \<bar>x\<bar> / 2 ^ 52"
      using exponent_bounds(1) [OF False] by (simp add: divide_right_mono)
    finally show ?thesis by (simp add: add_increasing2)
  next
    case False
    then have "q = 2 powi (- 1074)" by (simp add: q_def)
    then show ?thesis by simp
  qed
  then have "q / 2 \<le> \<bar>x\<bar> / 2 ^ 53 + 2 powi (- 1075)"
    by (simp add: power_int_minus field_simps)
  with err have "\<bar>y - x\<bar> \<le> \<bar>x\<bar> / 2 ^ 53 + 2 powi (- 1075)" by linarith
  moreover have "round_double x = (if 2 ^ 1024 \<le> \<bar>y\<bar> then (if 0 < x then PosInf else NegInf) else Fin y)"
    using False by (simp add: round_double_def q_def y_def Let_def)
  ultimately show ?thesis by blast
qed

lemma tiny_small: "(2::rat) powi (- 1075) \<le> 1 / 2 ^ 64"
proof -
  have "(2::rat) powi (- 1075) \<le> 2 powi (- 64)"
    by (rule power_int_increasing) simp_all
  then show ?thesis by (simp add: power_int_minus_divide)
qed

lemma round_double_never_NaN: "round_double x \<noteq> NaN"
  using round_double_error [of x] by (auto split: if_splits)

text \<open>Below \<open>2 ^ 60\<close> nothing overflows, and the error is at most one part in \<open>2 ^ 53\<close> and a little.\<close>

lemma round_double_close:
  assumes "\<bar>x\<bar> \<le> 2 ^ 60"
  shows "\<exists>y. round_double x = Fin y \<and> \<bar>y - x\<bar> \<le> \<bar>x\<bar> / 2 ^ 53 + 1 / 2 ^ 64"
proof -
  from round_double_error [of x] obtain y where
    y: "\<bar>y - x\<bar> \<le> \<bar>x\<bar> / 2 ^ 53 + 2 powi (- 1075)"
    and r: "round_double x = (if 2 ^ 1024 \<le> \<bar>y\<bar> then (if 0 < x then PosInf else NegInf) else Fin y)"
    by blast
  from y tiny_small have err: "\<bar>y - x\<bar> \<le> \<bar>x\<bar> / 2 ^ 53 + 1 / 2 ^ 64" by linarith
  have "\<bar>x\<bar> / 2 ^ 53 \<le> 2 ^ 60 / 2 ^ 53" using assms by (simp add: divide_right_mono)
  then have "\<bar>x\<bar> / 2 ^ 53 \<le> 128" by simp
  with err assms have "\<bar>y\<bar> \<le> 2 ^ 60 + 129" by (simp add: abs_le_iff) linarith
  moreover have "(2::rat) ^ 60 + 129 < 2 ^ 1024" by simp
  ultimately have "\<not> 2 ^ 1024 \<le> \<bar>y\<bar>" by linarith
  with r err show ?thesis by auto
qed

lemma round_double_overflow:
  assumes "2 ^ 1025 \<le> x"
  shows "round_double x = PosInf"
proof -
  from round_double_error [of x] obtain y where
    y: "\<bar>y - x\<bar> \<le> \<bar>x\<bar> / 2 ^ 53 + 2 powi (- 1075)"
    and r: "round_double x = (if 2 ^ 1024 \<le> \<bar>y\<bar> then (if 0 < x then PosInf else NegInf) else Fin y)"
    by blast
  have x8: "8 \<le> x" using assms by (rule order_trans [rotated]) simp
  then have x0: "0 < x" by simp
  have a: "\<bar>x\<bar> / 2 ^ 53 \<le> x / 8" using x0 by (simp add: field_simps)
  have "(1::rat) / 2 ^ 64 \<le> 1" by simp
  with tiny_small x8 have b: "2 powi (- 1075) \<le> x / 8" by linarith
  from y a b have "x - x / 4 \<le> y" by linarith
  moreover have "(2::rat) ^ 1024 \<le> x - x / 4" using assms by simp
  ultimately have "2 ^ 1024 \<le> \<bar>y\<bar>" by linarith
  with r x0 show ?thesis by simp
qed

subsection \<open>What the rounding does to the sampled numbers\<close>

lemma math_round_error: "\<bar>(of_int \<lfloor>a + 1 / 2\<rfloor> :: rat) - a\<bar> \<le> 1 / 2"
proof -
  have "of_int \<lfloor>a + 1 / 2\<rfloor> \<le> a + 1 / 2" "a + 1 / 2 < of_int \<lfloor>a + 1 / 2\<rfloor> + 1" by linarith+
  then show ?thesis by linarith
qed

lemma temp_tenths_close:
  assumes "\<bar>t\<bar> \<le> 1000000"
  shows "\<exists>(n::int) y. div_pos (math_round (times_pos (Fin t) 10)) 10 = Fin y \<and>
           round_double (of_int n / 10) = Fin y \<and>
           \<bar>of_int n / 10 - t\<bar> \<le> 1 / 20 + 1 / 2 ^ 30 \<and>
           \<bar>y - t\<bar> \<le> 1 / 20 + 1 / 2 ^ 30"
proof -
  have t10: "\<bar>t * 10\<bar> \<le> 10000000" using assms by (simp add: abs_mult)
  then have "\<bar>t * 10\<bar> \<le> 2 ^ 60" by simp
  from round_double_close [OF this] obtain a where
    a: "round_double (t * 10) = Fin a" and ea: "\<bar>a - t * 10\<bar> \<le> \<bar>t * 10\<bar> / 2 ^ 53 + 1 / 2 ^ 64"
    by blast
  have "\<bar>t * 10\<bar> / 2 ^ 53 \<le> 10000000 / 2 ^ 53" using t10 by (simp add: divide_right_mono)
  with ea have ea': "\<bar>a - t * 10\<bar> \<le> 10000000 / 2 ^ 53 + 1 / 2 ^ 64" by linarith
  define n where "n = \<lfloor>a + 1 / 2\<rfloor>"
  have en: "\<bar>of_int n - a\<bar> \<le> 1 / 2" unfolding n_def by (rule math_round_error)
  have c1: "(10000000 / 2 ^ 53 + 1 / 2 ^ 64 :: rat) \<le> 1 / 2" by simp
  from ea' c1 have "\<bar>a - t * 10\<bar> \<le> 1 / 2" by linarith
  with en t10 have "\<bar>of_int n :: rat\<bar> \<le> 10000001" by linarith
  moreover have "\<bar>of_int n / 10 :: rat\<bar> = \<bar>of_int n\<bar> / 10" by simp
  ultimately have n10: "\<bar>of_int n / 10 :: rat\<bar> \<le> 1000001" by linarith
  then have "\<bar>of_int n / 10 :: rat\<bar> \<le> 2 ^ 60" by simp
  from round_double_close [OF this] obtain y where
    y: "round_double (of_int n / 10) = Fin y"
    and ey: "\<bar>y - of_int n / 10\<bar> \<le> \<bar>of_int n / 10 :: rat\<bar> / 2 ^ 53 + 1 / 2 ^ 64"
    by blast
  have "\<bar>of_int n / 10 :: rat\<bar> / 2 ^ 53 \<le> 1000001 / 2 ^ 53" using n10 by (simp add: divide_right_mono)
  with ey have ey': "\<bar>y - of_int n / 10\<bar> \<le> 1000001 / 2 ^ 53 + 1 / 2 ^ 64" by linarith
  have c2: "((10000000 / 2 ^ 53 + 1 / 2 ^ 64) / 10 + (1000001 / 2 ^ 53 + 1 / 2 ^ 64) :: rat) \<le> 1 / 2 ^ 30"
    by simp
  have c3: "(0::rat) \<le> 1000001 / 2 ^ 53 + 1 / 2 ^ 64" by simp
  have "of_int n / 10 - t = (of_int n - a) / 10 + (a - t * 10) / 10"
    by (simp add: field_simps)
  then have "\<bar>of_int n / 10 - t\<bar> \<le> \<bar>(of_int n - a) / 10\<bar> + \<bar>(a - t * 10) / 10\<bar>"
    by linarith
  then have "\<bar>of_int n / 10 - t\<bar> \<le> \<bar>of_int n - a\<bar> / 10 + \<bar>a - t * 10\<bar> / 10"
    by simp
  also have "\<bar>of_int n - a\<bar> / 10 + \<bar>a - t * 10\<bar> / 10
      \<le> (1 / 2) / 10 + (10000000 / 2 ^ 53 + 1 / 2 ^ 64) / 10"
    using en ea' by (intro add_mono divide_right_mono) simp_all
  finally have mid: "\<bar>of_int n / 10 - t\<bar> \<le> 1 / 20 + (10000000 / 2 ^ 53 + 1 / 2 ^ 64) / 10" by simp
  from mid c2 c3 have tenth: "\<bar>of_int n / 10 - t\<bar> \<le> 1 / 20 + 1 / 2 ^ 30" by linarith
  have "\<bar>y - t\<bar> \<le> \<bar>y - of_int n / 10\<bar> + \<bar>of_int n / 10 - t\<bar>" by linarith
  with ey' mid c2 have close: "\<bar>y - t\<bar> \<le> 1 / 20 + 1 / 2 ^ 30" by linarith
  have "div_pos (math_round (times_pos (Fin t) 10)) 10 = Fin y"
    by (simp add: a y [unfolded n_def])
  with y tenth close show ?thesis by blast
qed

lemma toPercent_zero: "toPercent (Fin 0) = Fin 0"
  by (simp add: toPercent_def math_min_def math_max_def round_double_def floor_eq_iff)

lemma toPercent_range: "\<exists>k::int. 0 \<le> k \<and> k \<le> 100 \<and> toPercent (Fin p) = Fin (of_int k)"
proof (cases "round_double (p * 100)")
  case NaN
  with round_double_never_NaN show ?thesis by blast
next
  case PosInf
  then have "toPercent (Fin p) = Fin (of_int 100)" by (simp add: toPercent_def math_min_def math_max_def)
  then show ?thesis by (intro exI [of _ 100]) simp
next
  case NegInf
  then have "toPercent (Fin p) = Fin (of_int 0)" by (simp add: toPercent_def math_min_def math_max_def)
  then show ?thesis by (intro exI [of _ 0]) simp
next
  case (Fin a)
  then have "toPercent (Fin p) = Fin (of_int (max 0 (min 100 \<lfloor>a + 1 / 2\<rfloor>)))"
    by (simp add: toPercent_def math_min_def math_max_def max_def min_def)
  then show ?thesis by (intro exI [of _ "max 0 (min 100 \<lfloor>a + 1 / 2\<rfloor>)"]) simp
qed

lemma toPercent_close:
  assumes "0 \<le> p" and "p \<le> 1"
  shows "\<exists>k::int. 0 \<le> k \<and> k \<le> 100 \<and> toPercent (Fin p) = Fin (of_int k) \<and>
           \<bar>of_int k - p * 100\<bar> \<le> (1 / 2 + 1 / 2 ^ 40 :: rat)"
proof -
  have p100: "\<bar>p * 100\<bar> \<le> 100" using assms by (simp add: abs_mult)
  then have "\<bar>p * 100\<bar> \<le> 2 ^ 60" by simp
  from round_double_close [OF this] obtain a where
    a: "round_double (p * 100) = Fin a" and ea: "\<bar>a - p * 100\<bar> \<le> \<bar>p * 100\<bar> / 2 ^ 53 + 1 / 2 ^ 64"
    by blast
  have "\<bar>p * 100\<bar> / 2 ^ 53 \<le> 100 / 2 ^ 53" using p100 by (simp add: divide_right_mono)
  moreover have "(100 / 2 ^ 53 + 1 / 2 ^ 64 :: rat) \<le> 1 / 2 ^ 40" by simp
  ultimately have ea': "\<bar>a - p * 100\<bar> \<le> 1 / 2 ^ 40" using ea by linarith
  define n where "n = \<lfloor>a + 1 / 2\<rfloor>"
  have en: "\<bar>of_int n - a\<bar> \<le> 1 / 2" unfolding n_def by (rule math_round_error)
  define k where "k = max 0 (min 100 n)"
  have k: "0 \<le> k" "k \<le> 100" by (simp_all add: k_def)
  have tp: "toPercent (Fin p) = Fin (of_int k)"
    by (simp add: toPercent_def math_min_def math_max_def max_def min_def a n_def k_def)
  have range: "0 \<le> p * 100" "p * 100 \<le> 100" using assms by simp_all
  have "\<bar>(of_int k :: rat) - p * 100\<bar> \<le> \<bar>of_int n - p * 100\<bar>"
    using range by (auto simp: k_def max_def min_def abs_le_iff) 
  also have "\<dots> \<le> \<bar>of_int n - a\<bar> + \<bar>a - p * 100\<bar>" by linarith
  also have "\<dots> \<le> 1 / 2 + 1 / 2 ^ 40" using en ea' by linarith
  finally show ?thesis using k tp by blast
qed

subsection \<open>The sample numbers\<close>

lemma double_21_36_literal: "round_double (2136 / 100) = Fin double_21_36"
  using round_double_eval [where x = "2136 / 100" and e = 4 and n = 6012305502539612]
  by (simp add: double_21_36_def)

lemma double_0_42_literal: "round_double (42 / 100) = Fin double_0_42"
  using round_double_eval [where x = "42 / 100" and e = "- 2" and n = 7566047373982433]
  by (simp add: double_0_42_def)

lemma double_21_4_literal: "round_double (214 / 10) = Fin double_21_4"
  using round_double_eval [where x = "214 / 10" and e = 4 and n = 6023564501608038]
  by (simp add: double_21_4_def)

lemma sample_seconds: "times_pos (Fin 1700000000) 1000 = Fin 1700000000000"
  using round_double_eval [where x = "1700000000 * 1000" and e = 40 and n = 6963200000000000]
  by simp

lemma late_seconds: "times_pos (Fin 8640000000001) 1000 = Fin 8640000000001000"
  using round_double_eval [where x = "8640000000001 * 1000" and e = 52 and n = 8640000000001000]
  by simp

lemma sample_tenths: "div_pos (math_round (times_pos (Fin double_21_36) 10)) 10 = Fin double_21_4"
proof -
  have "times_pos (Fin double_21_36) 10 = Fin (7515381878174515 / 35184372088832)"
    using round_double_eval [where x = "double_21_36 * 10" and e = 7 and n = 7515381878174515]
    by (simp add: double_21_36_def)
  moreover have "\<lfloor>7515381878174515 / 35184372088832 + 1 / 2 :: rat\<rfloor> = 214"
    by (simp add: floor_eq_iff)
  ultimately show ?thesis using double_21_4_literal by simp
qed

lemma sample_percent: "toPercent (Fin double_0_42) = Fin 42"
proof -
  have "times_pos (Fin double_0_42) 100 = Fin 42"
    using round_double_eval [where x = "double_0_42 * 100" and e = 5 and n = 5910974510923776]
    by (simp add: double_0_42_def)
  moreover have "\<lfloor>42 + 1 / 2 :: rat\<rfloor> = 42" by (simp add: floor_eq_iff)
  ultimately show ?thesis by (simp add: toPercent_def math_min_def math_max_def)
qed

lemma hot_tenths: "div_pos (math_round (times_pos (Fin (2 ^ 1023)) 10)) 10 = PosInf"
proof -
  have "(2::rat) ^ 1025 \<le> 2 ^ 1023 * 10" by simp
  then have "round_double (2 ^ 1023 * 10) = PosInf" by (rule round_double_overflow)
  then show ?thesis by simp
qed

section \<open>Properties of the forecast sampler\<close>

lemma FORECAST_POINTS_eq: "FORECAST_POINTS = 8"
  by (simp add: FORECAST_POINTS_def HOURS_TO_DISPLAY_def FORECAST_INTERVAL_HOURS_def)

lemma mapEntries_append:
  "mapEntries P F (xs @ ys) =
     (case mapEntries P F xs of
        Inl err \<Rightarrow> Inl err
      | Inr ps \<Rightarrow> (case mapEntries P F ys of Inl err \<Rightarrow> Inl err | Inr qs \<Rightarrow> Inr (ps @ qs)))"
  by (induction xs) (auto split: sum.splits)

lemma filterNonNull_append: "filterNonNull (ps @ qs) = filterNonNull ps @ filterNonNull qs"
  by (induction ps rule: filterNonNull.induct) auto

lemma filterNonNull_map: "filterNonNull (map f xs) = List.map_filter f xs"
  by (induction xs) (auto simp: List.map_filter_simps split: option.splits)

lemma sampleEntry_dropped:
  "entry_temperature r = None \<or> entry_temperature r = Some NaN \<Longrightarrow> sampleEntry P F (Some r) = Inr None"
  by (auto simp: sampleEntry_def Let_def)

lemma sampleEntry_valid:
  assumes "entry_timestamp P entry = Fin ms" and "\<bar>ms\<bar> \<le> MAX_TIME_VALUE"
    and "entry_temperature entry = Some (Fin t)"
  shows "sampleEntry P F (Some entry) =
     Inr (Some \<lparr> time = F ms,
                 temp = div_pos (math_round (times_pos (Fin t) 10)) 10,
                 pop = toPercent (case e_pop entry of Some (Fin p) \<Rightarrow> Fin p | _ \<Rightarrow> Fin 0) \<rparr>)"
  using assms
  by (auto simp: sampleEntry_def formatTime_def Let_def split: option.splits jsnum.splits)

lemma sampleEntry_keptPoint:
  assumes "passesChecks P e \<longrightarrow> dateHolds P e"
  shows "sampleEntry P F e = Inr (keptPoint P F e)"
  using assms
  by (auto simp: passesChecks_def dateHolds_def sampleEntry_def keptPoint_def formatTime_def Let_def
           split: option.splits jsnum.splits)

lemma sampleEntry_throws:
  assumes "passesChecks P e" and "\<not> dateHolds P e"
  shows "sampleEntry P F e = Inl (Error ''Invalid time value'')"
  using assms
  by (auto simp: passesChecks_def dateHolds_def sampleEntry_def formatTime_def Let_def
           split: option.splits jsnum.splits)

lemma keptPoint_None_iff: "(keptPoint P F e = None) = (\<not> passesChecks P e)"
  by (auto simp: passesChecks_def keptPoint_def split: option.splits jsnum.splits)

lemma mapEntries_keptPoint:
  "\<forall>e \<in> set xs. passesChecks P e \<longrightarrow> dateHolds P e \<Longrightarrow>
     mapEntries P F xs = Inr (map (keptPoint P F) xs)"
  by (induction xs) (simp_all add: sampleEntry_keptPoint)

lemma keptPoint_NoneD: "keptPoint P F e = None \<Longrightarrow> \<not> passesChecks P e"
  by (simp add: keptPoint_None_iff)

lemma keptPoint_SomeD: "keptPoint P F e = Some pt \<Longrightarrow> passesChecks P e"
  using keptPoint_None_iff [of P F e] by auto

lemma length_map_filter_keptPoint:
  "length (List.map_filter (keptPoint P F) xs) = length (filter (passesChecks P) xs)"
  by (induction xs)
     (auto simp: List.map_filter_simps split: option.splits dest: keptPoint_NoneD keptPoint_SomeD)

lemma build_take:
  "buildThreeHourlyForecast P F (Some entries) = buildThreeHourlyForecast P F (Some (take 8 entries))"
  by (simp add: buildThreeHourlyForecast_def FORECAST_POINTS_eq)

lemma build_keptPoints:
  assumes "\<forall>e \<in> set (take 8 entries). passesChecks P e \<longrightarrow> dateHolds P e"
  shows "buildThreeHourlyForecast P F (Some entries) = Inr (List.map_filter (keptPoint P F) (take 8 entries))"
  using mapEntries_keptPoint [OF assms, of F]
  by (simp add: buildThreeHourlyForecast_def FORECAST_POINTS_eq filterNonNull_map)

lemma build_without:
  assumes "sampleEntry P F (Some r) = Inr None"
    and "take FORECAST_POINTS entries = xs @ Some r # ys"
  shows "buildThreeHourlyForecast P F (Some entries) = buildThreeHourlyForecast P F (Some (xs @ ys))"
proof -
  have "length (take FORECAST_POINTS entries) \<le> FORECAST_POINTS" by simp
  then have short: "take FORECAST_POINTS (xs @ ys) = xs @ ys"
    unfolding assms(2) by simp
  have "mapEntries P F (Some r # ys) =
        (case mapEntries P F ys of Inl err \<Rightarrow> Inl err | Inr qs \<Rightarrow> Inr (None # qs))"
    using assms(1) by simp
  then show ?thesis
    unfolding buildThreeHourlyForecast_def option.case assms(2) short
    by (simp add: mapEntries_append filterNonNull_append split: sum.splits)
qed

subsection \<open>The sample records\<close>

lemma sample_timestamp: "entry_timestamp P sample_entry = Fin 1700000000000"
  by (simp add: entry_timestamp_def sample_entry_def sample_seconds del: times_pos.simps)

lemma sample_in_range: "\<bar>1700000000000\<bar> \<le> MAX_TIME_VALUE"
  by (simp add: MAX_TIME_VALUE_def)

lemma sample_point:
  "sampleEntry P sample_format (Some sample_entry)
     = Inr (Some \<lparr> time = ''--:--'', temp = Fin double_21_4, pop = Fin 42 \<rparr>)"
proof -
  have "entry_temperature sample_entry = Some (Fin double_21_36)"
    by (simp add: entry_temperature_def sample_entry_def)
  from sampleEntry_valid [OF sample_timestamp sample_in_range this, of P sample_format]
  show ?thesis
    unfolding sample_tenths by (simp add: sample_entry_def sample_percent sample_format_def)
qed

lemma hot_point:
  "sampleEntry P sample_format (Some hot_entry)
     = Inr (Some \<lparr> time = ''--:--'', temp = PosInf, pop = Fin 42 \<rparr>)"
proof -
  have ts: "entry_timestamp P hot_entry = Fin 1700000000000"
    by (simp add: entry_timestamp_def hot_entry_def sample_entry_def sample_seconds del: times_pos.simps)
  have "entry_temperature hot_entry = Some (Fin (2 ^ 1023))"
    by (simp add: entry_temperature_def hot_entry_def)
  from sampleEntry_valid [OF ts sample_in_range this, of sample_format]
  show ?thesis
    unfolding hot_tenths by (simp add: hot_entry_def sample_entry_def sample_percent sample_format_def)
qed

lemma late_throws:
  "passesChecks P (Some late_entry) \<and> \<not> dateHolds P (Some late_entry) \<and>
   sampleEntry P F (Some late_entry) = Inl (Error ''Invalid time value'')"
proof -
  have ts: "entry_timestamp P late_entry = Fin 8640000000001000"
    by (simp add: entry_timestamp_def late_entry_def late_seconds del: times_pos.simps)
  have tp: "entry_temperature late_entry = Some (Fin double_21_36)"
    by (simp add: entry_temperature_def late_entry_def sample_entry_def)
  have a: "passesChecks P (Some late_entry)" by (simp add: passesChecks_def ts tp)
  have b: "\<not> dateHolds P (Some late_entry)" by (simp add: dateHolds_def ts MAX_TIME_VALUE_def)
  from a b sampleEntry_throws [OF a b] show ?thesis by simp
qed

text \<open>
  A time stamp in seconds that is finite but so large that its thousandfold is beyond the
  doubles becomes infinite, and the record is dropped.
\<close>

lemma overflowing_seconds_dropped:
  "isFinite (Fin (2 ^ 1020)) \<and>
   sampleEntry P F (Some (sample_entry\<lparr>dt := Some (Fin (2 ^ 1020))\<rparr>)) = Inr None"
proof -
  have "(2::rat) ^ 1025 \<le> 2 ^ 1020 * 1000" by simp
  then have "round_double (2 ^ 1020 * 1000) = PosInf" by (rule round_double_overflow)
  then have "entry_timestamp P (sample_entry\<lparr>dt := Some (Fin (2 ^ 1020))\<rparr>) = PosInf"
    by (simp add: entry_timestamp_def)
  then show ?thesis by (simp add: sampleEntry_def)
qed

lemma mapEntries_replicate_throw:
  "0 < n \<Longrightarrow> sampleEntry P F e = Inl err \<Longrightarrow> mapEntries P F (replicate n e) = Inl err"
  by (cases n) simp_all

subsection \<open>The claims about the sampler\<close>

text \<open>
  Claim C5, as the code has it.  A record whose temperature is missing, not a number
  type, or NaN is dropped: whenever it lies among the first eight records, the sampler
  answers exactly what it answers on those records with this one taken out, so the
  records before and after it are sampled as they would be without it.  (The source
  tests the temperature with \<^verbatim>\<open>Number.isNaN\<close>; an infinite temperature is not covered
  by this statement.)
\<close>

theorem sampler_drops_nan_temperature:
  assumes "entry_temperature r = None \<or> entry_temperature r = Some NaN"
    and "take FORECAST_POINTS entries = xs @ Some r # ys"
  shows "sampleEntry P F (Some r) = Inr None \<and>
         buildThreeHourlyForecast P F (Some entries) = buildThreeHourlyForecast P F (Some (xs @ ys))"
  using sampleEntry_dropped [OF assms(1)] build_without [OF _ assms(2)] by simp

theorem sampler_drops_nan_temperature_witness:
  "buildThreeHourlyForecast sample_parse sample_format
     (Some [Some sample_entry, Some (sample_entry\<lparr>main := Some \<lparr> m_temp = Some NaN \<rparr>\<rparr>), Some sample_entry])
   = buildThreeHourlyForecast sample_parse sample_format (Some [Some sample_entry, Some sample_entry])"
  using sampler_drops_nan_temperature
          [of "sample_entry\<lparr>main := Some \<lparr> m_temp = Some NaN \<rparr>\<rparr>"
              "[Some sample_entry, Some (sample_entry\<lparr>main := Some \<lparr> m_temp = Some NaN \<rparr>\<rparr>), Some sample_entry]"
              "[Some sample_entry]" "[Some sample_entry]" sample_parse sample_format]
  by (simp add: entry_temperature_def FORECAST_POINTS_eq)

text \<open>
  Claim C5 as it is written fails: a record whose temperature is positive infinity, which
  is not a finite number, is not dropped; it is sampled to a point with that temperature.
\<close>

theorem infinite_temperature_not_dropped:
  "\<not> isFinite PosInf \<and>
   buildThreeHourlyForecast sample_parse sample_format
     (Some [Some (sample_entry\<lparr>main := Some \<lparr> m_temp = Some PosInf \<rparr>\<rparr>)])
   = Inr [\<lparr> time = ''--:--'', temp = PosInf, pop = Fin 42 \<rparr>]"
  by (simp add: buildThreeHourlyForecast_def FORECAST_POINTS_eq sampleEntry_def sample_entry_def
        entry_timestamp_def entry_temperature_def formatTime_def MAX_TIME_VALUE_def sample_format_def
        Let_def sample_seconds sample_percent del: times_pos.simps(1))

text \<open>
  Claim C6, as the code has it.  A record with a finite time stamp that a date can hold
  and a finite temperature \<open>t\<close> is sampled to one point.  Its temperature is
  \<^verbatim>\<open>Math.round(t * 10) / 10\<close> on doubles; when \<open>t\<close> is at most 1000000 in absolute value
  this is the double nearest to \<open>n / 10\<close> for a whole number \<open>n\<close> of tenths, and \<open>n / 10\<close>
  and the result both lie within 0.05 and one part in \<open>2 ^ 30\<close> of \<open>t\<close>.  Its percentage
  is \<^verbatim>\<open>Math.round(pop * 100)\<close> on doubles, clamped to 0..100: always a whole number from
  0 to 100, within 0.5 and one part in \<open>2 ^ 40\<close> of a hundred times the fraction when the
  fraction lies between 0 and 1, and 0 when the fraction is absent or not finite.
\<close>

theorem sampler_rounding:
  assumes "entry_timestamp P entry = Fin ms" and "\<bar>ms\<bar> \<le> MAX_TIME_VALUE"
    and "entry_temperature entry = Some (Fin t)"
  shows "buildThreeHourlyForecast P F (Some [Some entry]) =
           Inr [\<lparr> time = F ms,
                  temp = div_pos (math_round (times_pos (Fin t) 10)) 10,
                  pop = toPercent (case e_pop entry of Some (Fin p) \<Rightarrow> Fin p | _ \<Rightarrow> Fin 0) \<rparr>] \<and>
         (\<bar>t\<bar> \<le> 1000000 \<longrightarrow>
            (\<exists>(n::int) y. div_pos (math_round (times_pos (Fin t) 10)) 10 = Fin y \<and>
               round_double (of_int n / 10) = Fin y \<and>
               \<bar>of_int n / 10 - t\<bar> \<le> 1 / 20 + 1 / 2 ^ 30 \<and>
               \<bar>y - t\<bar> \<le> 1 / 20 + 1 / 2 ^ 30)) \<and>
         (\<exists>k::int. 0 \<le> k \<and> k \<le> 100 \<and>
            toPercent (case e_pop entry of Some (Fin p) \<Rightarrow> Fin p | _ \<Rightarrow> Fin 0) = Fin (of_int k)) \<and>
         (\<forall>p. e_pop entry = Some (Fin p) \<and> 0 \<le> p \<and> p \<le> 1 \<longrightarrow>
            (\<exists>k::int. toPercent (Fin p) = Fin (of_int k) \<and> \<bar>of_int k - p * 100\<bar> \<le> 1 / 2 + 1 / 2 ^ 40)) \<and>
         (e_pop entry = None \<or> e_pop entry = Some NaN \<or> e_pop entry = Some PosInf \<or> e_pop entry = Some NegInf \<longrightarrow>
            toPercent (case e_pop entry of Some (Fin p) \<Rightarrow> Fin p | _ \<Rightarrow> Fin 0) = Fin 0)"
proof (intro conjI impI allI)
  show "buildThreeHourlyForecast P F (Some [Some entry]) =
           Inr [\<lparr> time = F ms,
                  temp = div_pos (math_round (times_pos (Fin t) 10)) 10,
                  pop = toPercent (case e_pop entry of Some (Fin p) \<Rightarrow> Fin p | _ \<Rightarrow> Fin 0) \<rparr>]"
    using sampleEntry_valid [OF assms, of F]
    by (simp add: buildThreeHourlyForecast_def FORECAST_POINTS_eq del: times_pos.simps div_pos.simps)
next
  assume "\<bar>t\<bar> \<le> 1000000"
  then show "\<exists>(n::int) y. div_pos (math_round (times_pos (Fin t) 10)) 10 = Fin y \<and>
               round_double (of_int n / 10) = Fin y \<and>
               \<bar>of_int n / 10 - t\<bar> \<le> 1 / 20 + 1 / 2 ^ 30 \<and>
               \<bar>y - t\<bar> \<le> 1 / 20 + 1 / 2 ^ 30"
    by (rule temp_tenths_close)
next
  have "\<exists>q. (case e_pop entry of Some (Fin p) \<Rightarrow> Fin p | _ \<Rightarrow> Fin 0) = Fin q"
    by (auto split: option.splits jsnum.splits)
  then obtain q where q: "(case e_pop entry of Some (Fin p) \<Rightarrow> Fin p | _ \<Rightarrow> Fin 0) = Fin q"
    by blast
  from toPercent_range [of q]
  show "\<exists>k::int. 0 \<le> k \<and> k \<le> 100 \<and>
            toPercent (case e_pop entry of Some (Fin p) \<Rightarrow> Fin p | _ \<Rightarrow> Fin 0) = Fin (of_int k)"
    unfolding q .
next
  fix p assume "e_pop entry = Some (Fin p) \<and> 0 \<le> p \<and> p \<le> 1"
  then have "0 \<le> p" "p \<le> 1" by simp_all
  from toPercent_close [OF this]
  show "\<exists>k::int. toPercent (Fin p) = Fin (of_int k) \<and> \<bar>of_int k - p * 100\<bar> \<le> 1 / 2 + 1 / 2 ^ 40"
    by blast
next
  assume "e_pop entry = None \<or> e_pop entry = Some NaN \<or> e_pop entry = Some PosInf \<or> e_pop entry = Some NegInf"
  then show "toPercent (case e_pop entry of Some (Fin p) \<Rightarrow> Fin p | _ \<Rightarrow> Fin 0) = Fin 0"
    by (auto simp: toPercent_zero)
qed

text \<open>
  The two records of the claim: 21.36 degrees with a fraction of 0.42 gives 21.4 and 42;
  the same record without a fraction gives 0.  The three decimal numbers denote the
  doubles used here.
\<close>

theorem sampler_rounding_witness:
  "buildThreeHourlyForecast sample_parse sample_format (Some [Some sample_entry])
     = Inr [\<lparr> time = ''--:--'', temp = Fin double_21_4, pop = Fin 42 \<rparr>] \<and>
   buildThreeHourlyForecast sample_parse sample_format (Some [Some (sample_entry\<lparr>e_pop := None\<rparr>)])
     = Inr [\<lparr> time = ''--:--'', temp = Fin double_21_4, pop = Fin 0 \<rparr>] \<and>
   round_double (2136 / 100) = Fin double_21_36 \<and>
   round_double (42 / 100) = Fin double_0_42 \<and>
   round_double (214 / 10) = Fin double_21_4"
proof -
  have ts: "entry_timestamp sample_parse sample_entry = Fin 1700000000000"
           "entry_timestamp sample_parse (sample_entry\<lparr>e_pop := None\<rparr>) = Fin 1700000000000"
    by (simp_all add: entry_timestamp_def sample_entry_def sample_seconds del: times_pos.simps)
  have tp: "entry_temperature sample_entry = Some (Fin double_21_36)"
           "entry_temperature (sample_entry\<lparr>e_pop := None\<rparr>) = Some (Fin double_21_36)"
    by (simp_all add: entry_temperature_def sample_entry_def)
  have pp: "e_pop sample_entry = Some (Fin double_0_42)" "e_pop (sample_entry\<lparr>e_pop := None\<rparr>) = None"
    by (simp_all add: sample_entry_def)
  from sampler_rounding [OF ts(1) sample_in_range tp(1), of sample_format]
  have 1: "buildThreeHourlyForecast sample_parse sample_format (Some [Some sample_entry])
     = Inr [\<lparr> time = ''--:--'', temp = Fin double_21_4, pop = Fin 42 \<rparr>]"
    unfolding sample_tenths pp by (simp add: sample_percent sample_format_def)
  from sampler_rounding [OF ts(2) sample_in_range tp(2), of sample_format]
  have 2: "buildThreeHourlyForecast sample_parse sample_format (Some [Some (sample_entry\<lparr>e_pop := None\<rparr>)])
     = Inr [\<lparr> time = ''--:--'', temp = Fin double_21_4, pop = Fin 0 \<rparr>]"
    unfolding sample_tenths pp by (simp add: toPercent_zero sample_format_def)
  from 1 2 double_21_36_literal double_0_42_literal double_21_4_literal show ?thesis by simp
qed

text \<open>
  Claim C6 as it is written fails: the temperature \<open>2 ^ 1023\<close> is a finite double, ten
  times it is beyond the doubles, and the sampled temperature is positive infinity,
  which is not that temperature rounded to 0.1.
\<close>

theorem huge_temperature_sampled_infinite:
  "entry_temperature hot_entry = Some (Fin (2 ^ 1023)) \<and> isFinite (Fin (2 ^ 1023)) \<and>
   round_double (2 ^ 1023) = Fin (2 ^ 1023) \<and>
   buildThreeHourlyForecast sample_parse sample_format (Some [Some hot_entry])
     = Inr [\<lparr> time = ''--:--'', temp = PosInf, pop = Fin 42 \<rparr>]"
proof -
  have "round_double (2 ^ 1023) = Fin (2 ^ 1023)"
    using round_double_eval [where x = "2 ^ 1023" and e = 1023 and n = "2 ^ 52"] by simp
  then show ?thesis
    by (simp add: buildThreeHourlyForecast_def FORECAST_POINTS_eq hot_point)
       (simp add: entry_temperature_def hot_entry_def)
qed

text \<open>
  Claim C7, as the code has it.  The sampler looks at the first eight records only.
  When every one of them that passes the checks has a time value that a date can hold,
  the sampler returns, in the order of the input, the points of the records that pass
  and nothing for a record that fails a check: the output has as many points as there
  are passing records among the first eight, so at most eight.  A record yields no
  point exactly when it fails a check.  Ten valid records give exactly eight points,
  and the output can be shorter (a single falsy record gives none).
\<close>

theorem sampler_first_eight:
  "buildThreeHourlyForecast P F (Some entries) = buildThreeHourlyForecast P F (Some (take 8 entries)) \<and>
   ((\<forall>e \<in> set (take 8 entries). passesChecks P e \<longrightarrow> dateHolds P e) \<longrightarrow>
      buildThreeHourlyForecast P F (Some entries) = Inr (List.map_filter (keptPoint P F) (take 8 entries)) \<and>
      length (List.map_filter (keptPoint P F) (take 8 entries)) = length (filter (passesChecks P) (take 8 entries)) \<and>
      length (List.map_filter (keptPoint P F) (take 8 entries)) \<le> 8) \<and>
   (\<forall>e. (keptPoint P F e = None) = (\<not> passesChecks P e)) \<and>
   (length entries = 10 \<and> (\<forall>e \<in> set entries. validEntry P e) \<longrightarrow>
      (\<exists>pts. buildThreeHourlyForecast P F (Some entries) = Inr pts \<and> length pts = 8)) \<and>
   buildThreeHourlyForecast P F (Some [None]) = Inr []"
proof (intro conjI allI impI)
  show "buildThreeHourlyForecast P F (Some entries) = buildThreeHourlyForecast P F (Some (take 8 entries))"
    by (rule build_take)
next
  assume "\<forall>e \<in> set (take 8 entries). passesChecks P e \<longrightarrow> dateHolds P e"
  then show "buildThreeHourlyForecast P F (Some entries) = Inr (List.map_filter (keptPoint P F) (take 8 entries))"
    by (rule build_keptPoints)
next
  show "length (List.map_filter (keptPoint P F) (take 8 entries)) = length (filter (passesChecks P) (take 8 entries))"
    by (rule length_map_filter_keptPoint)
next
  have "length (filter (passesChecks P) (take 8 entries)) \<le> length (take 8 entries)"
    by (rule length_filter_le)
  then show "length (List.map_filter (keptPoint P F) (take 8 entries)) \<le> 8"
    by (simp add: length_map_filter_keptPoint)
next
  fix e show "(keptPoint P F e = None) = (\<not> passesChecks P e)" by (rule keptPoint_None_iff)
next
  assume a: "length entries = 10 \<and> (\<forall>e \<in> set entries. validEntry P e)"
  then have v: "\<forall>e \<in> set (take 8 entries). passesChecks P e \<and> dateHolds P e"
    by (auto simp: validEntry_def dest: in_set_takeD)
  then have "buildThreeHourlyForecast P F (Some entries) = Inr (List.map_filter (keptPoint P F) (take 8 entries))"
    by (intro build_keptPoints) simp
  moreover have "filter (passesChecks P) (take 8 entries) = take 8 entries"
    using v by (simp add: filter_id_conv)
  then have "length (List.map_filter (keptPoint P F) (take 8 entries)) = 8"
    using a by (simp add: length_map_filter_keptPoint)
  ultimately show "\<exists>pts. buildThreeHourlyForecast P F (Some entries) = Inr pts \<and> length pts = 8"
    by blast
next
  show "buildThreeHourlyForecast P F (Some [None]) = Inr []"
    by (simp add: buildThreeHourlyForecast_def FORECAST_POINTS_eq sampleEntry_def)
qed

lemma sample_valid: "validEntry P (Some sample_entry)"
proof -
  have "entry_temperature sample_entry = Some (Fin double_21_36)"
    by (simp add: entry_temperature_def sample_entry_def)
  then show ?thesis
    by (simp add: validEntry_def passesChecks_def dateHolds_def sample_timestamp MAX_TIME_VALUE_def)
qed

text \<open>
  Ten copies of the sample record give eight points; the sample record, a falsy record,
  a record without a temperature and the sample record again give two.
\<close>

theorem sampler_first_eight_witness:
  "(\<exists>pts. buildThreeHourlyForecast sample_parse sample_format (Some (replicate 10 (Some sample_entry))) = Inr pts
      \<and> length pts = 8) \<and>
   buildThreeHourlyForecast sample_parse sample_format
     (Some [Some sample_entry, None, Some (sample_entry\<lparr>main := None\<rparr>), Some sample_entry])
     = Inr [\<lparr> time = ''--:--'', temp = Fin double_21_4, pop = Fin 42 \<rparr>,
            \<lparr> time = ''--:--'', temp = Fin double_21_4, pop = Fin 42 \<rparr>]"
proof -
  have "length (replicate 10 (Some sample_entry)) = 10 \<and>
        (\<forall>e \<in> set (replicate 10 (Some sample_entry)). validEntry sample_parse e)"
    by (simp add: sample_valid)
  with sampler_first_eight [of sample_parse sample_format "replicate 10 (Some sample_entry)"]
  have 1: "\<exists>pts. buildThreeHourlyForecast sample_parse sample_format (Some (replicate 10 (Some sample_entry))) = Inr pts
      \<and> length pts = 8" by blast
  let ?r = "sample_entry\<lparr>main := None\<rparr>"
  let ?xs = "[Some sample_entry, None, Some ?r, Some sample_entry]"
  have k: "keptPoint sample_parse sample_format (Some sample_entry)
             = Some \<lparr> time = ''--:--'', temp = Fin double_21_4, pop = Fin 42 \<rparr>"
    using sampleEntry_keptPoint [of sample_parse "Some sample_entry" sample_format] sample_valid [of sample_parse]
    by (simp add: validEntry_def sample_point)
  have f: "\<not> passesChecks sample_parse (Some ?r)" "\<not> passesChecks sample_parse None"
    by (simp_all add: passesChecks_def entry_temperature_def)
  then have n: "keptPoint sample_parse sample_format (Some ?r) = None" "keptPoint sample_parse sample_format None = None"
    by (simp_all add: keptPoint_None_iff)
  have "\<forall>e \<in> set (take 8 ?xs). passesChecks sample_parse e \<longrightarrow> dateHolds sample_parse e"
    using sample_valid [of sample_parse] f by (simp add: validEntry_def)
  with sampler_first_eight [of sample_parse sample_format ?xs]
  have "buildThreeHourlyForecast sample_parse sample_format (Some ?xs)
          = Inr (List.map_filter (keptPoint sample_parse sample_format) (take 8 ?xs))" by blast
  then have 2: "buildThreeHourlyForecast sample_parse sample_format (Some ?xs)
     = Inr [\<lparr> time = ''--:--'', temp = Fin double_21_4, pop = Fin 42 \<rparr>,
            \<lparr> time = ''--:--'', temp = Fin double_21_4, pop = Fin 42 \<rparr>]"
    by (simp add: List.map_filter_simps k n)
  from 1 2 show ?thesis by simp
qed

text \<open>
  Claim C7 as it is written fails: ten records that pass every check, each with a time
  stamp one second beyond what a date can hold, give no list of points at all, since
  formatting the first one throws a RangeError.
\<close>

theorem late_records_make_sampler_throw:
  "passesChecks sample_parse (Some late_entry) \<and>
   entry_timestamp sample_parse late_entry = Fin 8640000000001000 \<and>
   entry_temperature late_entry = Some (Fin double_21_36) \<and>
   buildThreeHourlyForecast sample_parse sample_format (Some (replicate 10 (Some late_entry)))
     = Inl (Error ''Invalid time value'')"
proof -
  have ts: "entry_timestamp sample_parse late_entry = Fin 8640000000001000"
    by (simp add: entry_timestamp_def late_entry_def late_seconds del: times_pos.simps)
  have tp: "entry_temperature late_entry = Some (Fin double_21_36)"
    by (simp add: entry_temperature_def late_entry_def sample_entry_def)
  from late_throws [of sample_parse sample_format]
  have "mapEntries sample_parse sample_format (replicate 8 (Some late_entry)) = Inl (Error ''Invalid time value'')"
    by (intro mapEntries_replicate_throw) simp_all
  then have "buildThreeHourlyForecast sample_parse sample_format (Some (replicate 10 (Some late_entry)))
     = Inl (Error ''Invalid time value'')"
    by (simp add: buildThreeHourlyForecast_def FORECAST_POINTS_eq)
  with late_throws [of sample_parse sample_format] ts tp show ?thesis by simp
qed

section \<open>Properties of the weather card\<close>

subsection \<open>Unfolding the handlers\<close>

lemma fetchCallsOf_append [simp]: "fetchCallsOf (xs @ ys) = fetchCallsOf xs @ fetchCallsOf ys"
  by (induction xs rule: fetchCallsOf.induct) auto

lemmas setter_defs = setWeather_def setHourlyForecast_def setLoading_def setError_def

lemmas closure_defs =
  stopWatching_def reportLocationError_def fetchWeatherForPosition_def finallyBlock_def fetchFailed_def

lemmas handler_defs =
  maybeUsePosition_def handleGeoError_def fallbackTimerFired_def cleanup_def
  fetchSettled_def jsonSettled_def geocodeSettled_def

lemmas trace_defs = fetchCalls_def emissions_def requests_def geocodeRequests_def isGeocodeRequest_def

lemmas all_defs = setter_defs closure_defs handler_defs trace_defs Let_def

lemmas all_splits = option.splits task.splits fetch_outcome.splits sum.splits js_error.splits prod.splits

lemma sample_env_sel:
  "OPENWEATHER_API_KEY sample_env = ''w''" "OPENCAGE_API_KEY sample_env = ''g''"
  "has_geolocation sample_env" "has_window sample_env"
  "new_watch_id sample_env = 1" "new_timer_id sample_env = 2"
  "date_parse sample_env = sample_parse" "time_format sample_env = sample_format"
  by (simp_all add: sample_env_def)

lemmas run_defs = sample_env_sel fix20_def fix150_def fix500_def fixInf_def initial_def mount_def
  MIN_LOCATION_ACCURACY_METERS_def

lemma prepare_sample:
  "prepareWeather sample_env ok_response ok_response (Some sample_current) (Some sample_forecast)
     = Inr (\<lparr> w_name = ''Tokyo'', w_temp = Fin 18, w_description = ''clear sky'', w_iconCode = ''01d'' \<rparr>,
            [\<lparr> time = ''--:--'', temp = Fin double_21_4, pop = Fin 42 \<rparr>])"
  by (simp add: prepareWeather_def sample_env_sel ok_response_def sample_current_def sample_forecast_def
        buildThreeHourlyForecast_def FORECAST_POINTS_eq sample_point)

subsection \<open>The retained fix\<close>

text \<open>
  Claim C1, the code at a failing input.  A fix accurate to 150 metres is followed by one
  accurate to 500 metres, neither meets the threshold, and the timer fires: the fix that
  is retained, and that the fetch is called and the two requests are issued with, is the
  later and worse one.
\<close>

theorem best_position_is_latest_fix:
  "bestPosition (run sample_env (mount sample_env) [PositionUpdate fix150, PositionUpdate fix500]) = Some fix500 \<and>
   fetchCalls (run sample_env (mount sample_env) [PositionUpdate fix150, PositionUpdate fix500, TimerFired]) = [fix500] \<and>
   requests (run sample_env (mount sample_env) [PositionUpdate fix150, PositionUpdate fix500, TimerFired])
     = [FetchCurrent (Fin 36) (Fin 140), FetchForecast (Fin 36) (Fin 140)]"
  by (simp add: all_defs run_defs)

subsection \<open>At most one fetch\<close>

















subsection \<open>The deadline\<close>

text \<open>
  Claim C3, as the code has it.  When the timer fires in a session that is neither
  cancelled nor decided: with a retained fix, the fetch is called with it, the decision
  is recorded, and, if its coordinates pass the re-check and the weather key is
  configured, the two weather requests are issued for it; without a retained fix, the
  run ends with the message "Unable to refine your location.", no weather data, loading
  off, and no fetch and no request.
\<close>

theorem deadline_uses_retained_fix_or_reports:
  assumes "\<not> isCancelled s" and "\<not> hasFetched s"
  shows "case bestPosition s of
           Some best \<Rightarrow>
             fetchCalls (step env TimerFired s) = fetchCalls s @ [best] \<and>
             hasFetched (step env TimerFired s) \<and>
             (\<not> isNaN (latitude best) \<and> \<not> isNaN (longitude best) \<and> OPENWEATHER_API_KEY env \<noteq> [] \<longrightarrow>
                requests (step env TimerFired s) =
                  requests s @ [FetchCurrent (latitude best) (longitude best),
                                FetchForecast (latitude best) (longitude best)] \<and>
                tasks (step env TimerFired s) = tasks s @ [AwaitFetch best])
         | None \<Rightarrow>
             error (step env TimerFired s) = Some ''Unable to refine your location.'' \<and>
             weather (step env TimerFired s) = None \<and>
             hourlyForecast (step env TimerFired s) = [] \<and>
             loading (step env TimerFired s) = False \<and>
             fetchCalls (step env TimerFired s) = fetchCalls s \<and>
             requests (step env TimerFired s) = requests s"
  using assms by (auto simp: all_defs split: all_splits)

theorem deadline_uses_retained_fix_or_reports_witness:
  "error (step sample_env TimerFired (mount sample_env)) = Some ''Unable to refine your location.'' \<and>
   fetchCalls (step sample_env TimerFired (step sample_env (PositionUpdate fix150) (mount sample_env))) = [fix150]"
proof -
  have a: "\<not> isCancelled (mount sample_env)" "\<not> hasFetched (mount sample_env)"
          "bestPosition (mount sample_env) = None"
    by (simp_all add: run_defs)
  let ?s = "step sample_env (PositionUpdate fix150) (mount sample_env)"
  have b: "\<not> isCancelled ?s" "\<not> hasFetched ?s" "bestPosition ?s = Some fix150" "fetchCalls ?s = []"
    by (simp_all add: all_defs run_defs)
  from deadline_uses_retained_fix_or_reports [OF a(1,2), of sample_env]
       deadline_uses_retained_fix_or_reports [OF b(1,2), of sample_env] a(3) b(3,4)
  show ?thesis by simp
qed

text \<open>
  Claim C3 as it is written fails: when the timer fires on a fresh session, with no fix
  seen and no decision made, the message is not the one that \<^verbatim>\<open>describeGeoError\<close> gives
  for the timeout code 3.
\<close>

theorem deadline_without_fix_not_timeout_message:
  "\<not> isCancelled (mount sample_env) \<and> \<not> hasFetched (mount sample_env) \<and>
   bestPosition (mount sample_env) = None \<and>
   error (step sample_env TimerFired (mount sample_env)) = Some ''Unable to refine your location.'' \<and>
   error (step sample_env TimerFired (mount sample_env)) \<noteq> Some (describeGeoError 3 [])"
  by (simp add: all_defs run_defs describeGeoError_def)

subsection \<open>Malformed coordinates\<close>

lemma usedFixesOk_mount: "usedFixesOk (mount env)"
  by (simp add: usedFixesOk_def mount_def initial_def setter_defs fetchCalls_def)

lemma usedFixesOk_step: "usedFixesOk s \<Longrightarrow> usedFixesOk (step env e s)"
  by (cases e) (auto simp: usedFixesOk_def coordsNotNaN_def all_defs split: all_splits)

lemma usedFixesOk_run: "usedFixesOk s \<Longrightarrow> usedFixesOk (run env s es)"
  by (induction es arbitrary: s) (auto intro: usedFixesOk_step)

text \<open>
  Claim C4, as the code has it.  A position update whose latitude or longitude is NaN
  changes nothing: it is not retained and no fetch is called with it; so after any
  events the retained fix and every fix a fetch was called with have coordinates that
  are not NaN.  The fetch checks the coordinates again, and a fix that fails there ends
  the run: the message "Received invalid coordinates from geolocation.", no weather
  data, loading off, no request and no suspended call.
\<close>

theorem nan_coordinates_discarded:
  "(isNaN (latitude p) \<or> isNaN (longitude p) \<longrightarrow> step env (PositionUpdate p) s = s) \<and>
   usedFixesOk (run env (mount env) es) \<and>
   ((isNaN (latitude p) \<or> isNaN (longitude p)) \<and> \<not> isCancelled s \<longrightarrow>
      error (fetchWeatherForPosition env p s) = Some ''Received invalid coordinates from geolocation.'' \<and>
      weather (fetchWeatherForPosition env p s) = None \<and>
      hourlyForecast (fetchWeatherForPosition env p s) = [] \<and>
      loading (fetchWeatherForPosition env p s) = False \<and>
      requests (fetchWeatherForPosition env p s) = requests s \<and>
      tasks (fetchWeatherForPosition env p s) = tasks s)"
proof (intro conjI impI)
  assume "isNaN (latitude p) \<or> isNaN (longitude p)"
  then show "step env (PositionUpdate p) s = s" by (auto simp: maybeUsePosition_def)
next
  show "usedFixesOk (run env (mount env) es)" by (intro usedFixesOk_run usedFixesOk_mount)
next
  assume a: "(isNaN (latitude p) \<or> isNaN (longitude p)) \<and> \<not> isCancelled s"
  then show "error (fetchWeatherForPosition env p s) = Some ''Received invalid coordinates from geolocation.''"
    and "weather (fetchWeatherForPosition env p s) = None"
    and "hourlyForecast (fetchWeatherForPosition env p s) = []"
    and "loading (fetchWeatherForPosition env p s) = False"
    and "requests (fetchWeatherForPosition env p s) = requests s"
    and "tasks (fetchWeatherForPosition env p s) = tasks s"
    by (auto simp: all_defs split: all_splits)
qed

theorem nan_coordinates_discarded_witness:
  "step sample_env (PositionUpdate (fix20\<lparr>latitude := NaN\<rparr>)) (mount sample_env) = mount sample_env \<and>
   error (fetchWeatherForPosition sample_env (fix20\<lparr>latitude := NaN\<rparr>) (mount sample_env))
     = Some ''Received invalid coordinates from geolocation.''"
proof -
  have a: "isNaN (latitude (fix20\<lparr>latitude := NaN\<rparr>))" by simp
  have b: "\<not> isCancelled (mount sample_env)" by (simp add: run_defs)
  from nan_coordinates_discarded [of "fix20\<lparr>latitude := NaN\<rparr>" sample_env "mount sample_env" "[]"] a b
  show ?thesis by simp
qed

text \<open>
  Claim C4 as it is written fails: an update whose latitude is positive infinity, which is
  not a finite number, is retained, the fetch is called with it, the re-check lets it
  through and the two weather requests are issued with it.
\<close>

theorem infinite_latitude_accepted:
  "\<not> isFinite (latitude fixInf) \<and>
   bestPosition (step sample_env (PositionUpdate fixInf) (mount sample_env)) = Some fixInf \<and>
   fetchCalls (step sample_env (PositionUpdate fixInf) (mount sample_env)) = [fixInf] \<and>
   requests (step sample_env (PositionUpdate fixInf) (mount sample_env))
     = [FetchCurrent PosInf (Fin 139), FetchForecast PosInf (Fin 139)] \<and>
   error (step sample_env (PositionUpdate fixInf) (mount sample_env)) = None"
  by (simp add: all_defs run_defs)

subsection \<open>The order of the requests\<close>

lemma step_geocode_only_after_json:
  "geocodeRequests (step env e s) \<noteq> geocodeRequests s \<Longrightarrow>
     \<exists>i cj fj p cres fres w h.
        e = JsonSettled i cj fj \<and> i < length (tasks s) \<and> tasks s ! i = AwaitJson p cres fres \<and>
        prepareWeather env cres fres cj fj = Inr (w, h) \<and> OPENCAGE_API_KEY env \<noteq> [] \<and>
        geocodeRequests (step env e s) = geocodeRequests s @ [FetchGeocode (latitude p) (longitude p)]"
  by (cases e) (auto simp: all_defs split: all_splits if_splits)

lemma weather_requests_together:
  "\<not> isCancelled s \<Longrightarrow> \<not> isNaN (latitude p) \<Longrightarrow> \<not> isNaN (longitude p) \<Longrightarrow> OPENWEATHER_API_KEY env \<noteq> [] \<Longrightarrow>
     requests (fetchWeatherForPosition env p s) =
       requests s @ [FetchCurrent (latitude p) (longitude p), FetchForecast (latitude p) (longitude p)] \<and>
     tasks (fetchWeatherForPosition env p s) = tasks s @ [AwaitFetch p]"
  by (simp add: all_defs)

text \<open>
  Claim C8, as the code has it.  The reverse-geocoding request is issued in one place
  only: in the step that resumes a call of the fetch whose two weather responses have
  arrived, when their bodies have been read, have passed validation and the forecast has
  been sampled to a non-empty sequence, and the geocoding key is configured.  The two
  weather requests are issued together, in the step that starts the call.
\<close>

theorem geocode_request_after_weather_bodies:
  "(geocodeRequests (step env e s) \<noteq> geocodeRequests s \<longrightarrow>
      (\<exists>i cj fj p cres fres w h.
          e = JsonSettled i cj fj \<and> i < length (tasks s) \<and> tasks s ! i = AwaitJson p cres fres \<and>
          prepareWeather env cres fres cj fj = Inr (w, h) \<and> OPENCAGE_API_KEY env \<noteq> [] \<and>
          geocodeRequests (step env e s) = geocodeRequests s @ [FetchGeocode (latitude p) (longitude p)])) \<and>
   (\<not> isCancelled s \<and> \<not> isNaN (latitude q) \<and> \<not> isNaN (longitude q) \<and> OPENWEATHER_API_KEY env \<noteq> [] \<longrightarrow>
      requests (fetchWeatherForPosition env q s) =
        requests s @ [FetchCurrent (latitude q) (longitude q), FetchForecast (latitude q) (longitude q)] \<and>
      tasks (fetchWeatherForPosition env q s) = tasks s @ [AwaitFetch q])"
  using step_geocode_only_after_json [of env e s] weather_requests_together [of s q env]
  by blast

theorem geocode_request_after_weather_bodies_witness:
  "geocodeRequests (run sample_env (mount sample_env)
               [PositionUpdate fix20, FetchSettled 0 (Responses ok_response ok_response),
                JsonSettled 0 (Some sample_current) (Some sample_forecast)])
     = [FetchGeocode (latitude fix20) (longitude fix20)] \<and>
   requests (fetchWeatherForPosition sample_env fix20 (mount sample_env))
     = [FetchCurrent (Fin 35) (Fin 139), FetchForecast (Fin 35) (Fin 139)]"
proof -
  let ?s = "run sample_env (mount sample_env) [PositionUpdate fix20, FetchSettled 0 (Responses ok_response ok_response)]"
  let ?e = "JsonSettled 0 (Some sample_current) (Some sample_forecast)"
  have t: "tasks ?s = [AwaitJson fix20 ok_response ok_response]" "geocodeRequests ?s = []"
    by (simp_all add: all_defs run_defs)
  have ch: "geocodeRequests (step sample_env ?e ?s) \<noteq> geocodeRequests ?s"
    by (simp add: all_defs run_defs prepare_sample)
  have m: "\<not> isCancelled (mount sample_env)" "requests (mount sample_env) = []"
    "\<not> isNaN (latitude fix20)" "\<not> isNaN (longitude fix20)" "OPENWEATHER_API_KEY sample_env \<noteq> []"
    by (simp_all add: run_defs requests_def)
  have split: "run sample_env (mount sample_env)
               [PositionUpdate fix20, FetchSettled 0 (Responses ok_response ok_response), ?e]
             = step sample_env ?e ?s" by simp
  from geocode_request_after_weather_bodies [where env = sample_env and e = ?e and s = ?s]
       geocode_request_after_weather_bodies [where env = sample_env and s = "mount sample_env" and q = fix20]
       ch t m
  show ?thesis unfolding split by (auto simp: fix20_def)
qed

text \<open>
  Claim C8 as it is written fails.  With both keys configured, after a fix is accepted
  the two weather requests are out and the call is suspended on them, and no geocoding
  request has been issued; none is issued when the two responses arrive; it is issued
  only after the two bodies have been read.
\<close>

theorem geocode_not_concurrent:
  "OPENCAGE_API_KEY sample_env \<noteq> [] \<and>
   tasks (run sample_env (mount sample_env) [PositionUpdate fix20]) = [AwaitFetch fix20] \<and>
   requests (run sample_env (mount sample_env) [PositionUpdate fix20])
     = [FetchCurrent (Fin 35) (Fin 139), FetchForecast (Fin 35) (Fin 139)] \<and>
   requests (run sample_env (mount sample_env)
               [PositionUpdate fix20, FetchSettled 0 (Responses ok_response ok_response)])
     = [FetchCurrent (Fin 35) (Fin 139), FetchForecast (Fin 35) (Fin 139)] \<and>
   requests (run sample_env (mount sample_env)
               [PositionUpdate fix20, FetchSettled 0 (Responses ok_response ok_response),
                JsonSettled 0 (Some sample_current) (Some sample_forecast)])
     = [FetchCurrent (Fin 35) (Fin 139), FetchForecast (Fin 35) (Fin 139), FetchGeocode (Fin 35) (Fin 139)]"
  by (simp add: all_defs run_defs prepare_sample)

subsection \<open>Cancellation\<close>

lemma step_cancelled:
  "isCancelled s \<Longrightarrow>
     isCancelled (step env e s) \<and> emissions (step env e s) = emissions s \<and>
     weather (step env e s) = weather s \<and> hourlyForecast (step env e s) = hourlyForecast s \<and>
     loading (step env e s) = loading s \<and> error (step env e s) = error s"
  by (cases e) (auto simp: all_defs split: all_splits)

lemma run_cancelled:
  "isCancelled s \<Longrightarrow>
     emissions (run env s es) = emissions s \<and>
     weather (run env s es) = weather s \<and> hourlyForecast (run env s es) = hourlyForecast s \<and>
     loading (run env s es) = loading s \<and> error (run env s es) = error s"
proof (induction es arbitrary: s)
  case Nil
  then show ?case by simp
next
  case (Cons e es)
  from step_cancelled [OF Cons.prems, of env e] Cons.IH [of "step env e s"]
  show ?case by simp
qed

lemma cleanup_silent:
  "isCancelled (cleanup s) \<and> emissions (cleanup s) = emissions s \<and>
   weather (cleanup s) = weather s \<and> hourlyForecast (cleanup s) = hourlyForecast s \<and>
   loading (cleanup s) = loading s \<and> error (cleanup s) = error s \<and>
   watchId (cleanup s) = None \<and> fallbackTimer (cleanup s) = None \<and> last (trace (cleanup s)) = Abort"
  by (simp add: all_defs split: all_splits)

lemma abort_suppressed:
  "error (step env (FetchSettled i (Rejected AbortError)) s) = error s \<and>
   weather (step env (FetchSettled i (Rejected AbortError)) s) = weather s \<and>
   hourlyForecast (step env (FetchSettled i (Rejected AbortError)) s) = hourlyForecast s"
  by (simp add: all_defs split: all_splits)

text \<open>
  Claim C9.  From any state, once the cleanup has run, no event of any kind calls a
  state setter again: the sequence of setter calls and the four public states stay what
  they were before the cleanup, which itself sets nothing, clears the watch and the
  timer and aborts the requests.  In particular a call of the fetch that is suspended
  when the cleanup runs never sets an error, the data or the loading flag.  And a
  request that ends with the abort exception never sets an error or touches the data,
  cancelled or not.
\<close>

theorem no_emission_after_cleanup:
  "emissions (run env (step env Cleanup s) es) = emissions s \<and>
   weather (run env (step env Cleanup s) es) = weather s \<and>
   hourlyForecast (run env (step env Cleanup s) es) = hourlyForecast s \<and>
   loading (run env (step env Cleanup s) es) = loading s \<and>
   error (run env (step env Cleanup s) es) = error s \<and>
   watchId (step env Cleanup s) = None \<and> fallbackTimer (step env Cleanup s) = None \<and>
   last (trace (step env Cleanup s)) = Abort \<and>
   error (step env (FetchSettled i (Rejected AbortError)) s) = error s \<and>
   weather (step env (FetchSettled i (Rejected AbortError)) s) = weather s \<and>
   hourlyForecast (step env (FetchSettled i (Rejected AbortError)) s) = hourlyForecast s"
  using cleanup_silent [of s] run_cancelled [of "cleanup s" env es] abort_suppressed [of env i s]
  by simp

text \<open>
  A fix is accepted, the cleanup runs while the two requests are out, and then the
  requests are aborted, or they complete: the only setter calls are the two that started
  the fetch, and no error is set.
\<close>

theorem no_emission_after_cleanup_witness:
  "emissions (run sample_env (mount sample_env)
     [PositionUpdate fix20, Cleanup, FetchSettled 0 (Rejected AbortError), TimerFired, PositionError 1 []])
   = [SetLoading True, SetError None] \<and>
   error (run sample_env (mount sample_env)
     [PositionUpdate fix20, Cleanup, FetchSettled 0 (Responses ok_response ok_response),
      JsonSettled 0 None None, GeocodeSettled 0 None]) = None"
proof -
  let ?s = "step sample_env (PositionUpdate fix20) (mount sample_env)"
  have e: "emissions ?s = [SetLoading True, SetError None]" "error ?s = None"
    by (simp_all add: all_defs run_defs)
  have sp: "run sample_env (mount sample_env)
     [PositionUpdate fix20, Cleanup, FetchSettled 0 (Rejected AbortError), TimerFired, PositionError 1 []]
     = run sample_env (step sample_env Cleanup ?s) [FetchSettled 0 (Rejected AbortError), TimerFired, PositionError 1 []]"
    "run sample_env (mount sample_env)
     [PositionUpdate fix20, Cleanup, FetchSettled 0 (Responses ok_response ok_response),
      JsonSettled 0 None None, GeocodeSettled 0 None]
     = run sample_env (step sample_env Cleanup ?s) [FetchSettled 0 (Responses ok_response ok_response),
      JsonSettled 0 None None, GeocodeSettled 0 None]"
    by simp_all
  from no_emission_after_cleanup [of sample_env ?s "[FetchSettled 0 (Rejected AbortError), TimerFired, PositionError 1 []]"]
       no_emission_after_cleanup [of sample_env ?s "[FetchSettled 0 (Responses ok_response ok_response),
      JsonSettled 0 None None, GeocodeSettled 0 None]"] e
  show ?thesis unfolding sp by simp
qed

subsection \<open>Errors and stale data\<close>

lemma step_error_clears:
  "error (step env e s) \<noteq> error s \<Longrightarrow> error (step env e s) \<noteq> None \<Longrightarrow>
     weather (step env e s) = None \<and> hourlyForecast (step env e s) = []"
  by (cases e) (auto simp: all_defs split: all_splits if_splits)

text \<open>
  Claim C10.  A step that changes the error state to a message leaves the weather absent
  and the forecast empty; and the two places that set a message, the location error
  report and the catch block of the fetch, clear both whenever they run in a session that
  is not cancelled.
\<close>

theorem error_clears_weather:
  "(error (step env e s) \<noteq> error s \<and> error (step env e s) \<noteq> None \<longrightarrow>
      weather (step env e s) = None \<and> hourlyForecast (step env e s) = []) \<and>
   (\<not> isCancelled s \<longrightarrow>
      error (reportLocationError m s) = Some m \<and>
      weather (reportLocationError m s) = None \<and> hourlyForecast (reportLocationError m s) = []) \<and>
   (\<not> isCancelled s \<longrightarrow>
      error (fetchFailed (Error m) s) = Some (if m \<noteq> [] then m else ''Failed to fetch weather data.'') \<and>
      weather (fetchFailed (Error m) s) = None \<and> hourlyForecast (fetchFailed (Error m) s) = [])"
  using step_error_clears [of env e s]
  by (auto simp: reportLocationError_def fetchFailed_def finallyBlock_def setter_defs)

theorem error_clears_weather_witness:
  "weather (step sample_env (PositionError 1 []) (mount sample_env)) = None \<and>
   hourlyForecast (step sample_env (PositionError 1 []) (mount sample_env)) = [] \<and>
   error (step sample_env (PositionError 1 []) (mount sample_env)) = Some ''Location permission was denied.''"
proof -
  have a: "error (step sample_env (PositionError 1 []) (mount sample_env)) = Some ''Location permission was denied.''"
    "error (mount sample_env) = None"
    by (simp_all add: all_defs run_defs describeGeoError_def)
  from error_clears_weather [of sample_env "PositionError 1 []" "mount sample_env"] a
  show ?thesis by simp
qed

text \<open>
  Under the contract of the platform the same holds of every state that is reached: an
  error message is never shown together with weather data.
\<close>

lemma consistent_mount: "consistent (mount env)"
  by (simp add: consistent_def mount_def initial_def setter_defs)

lemma consistent_tasks:
  assumes "consistent s" and "i < length (tasks s)"
  obtains t where "tasks s = [t]" and "i = 0" and "t = Completed \<or> error s = None"
  using assms by (auto simp: consistent_def split: list.splits)

lemma consistent_step:
  assumes "consistent s" and "deliverable s e"
  shows "consistent (step env e s)"
proof (cases e)
  case (PositionUpdate p)
  with assms show ?thesis
    by (auto simp: consistent_def all_defs split: all_splits if_splits)
next
  case (PositionError c m)
  with assms show ?thesis
    by (auto simp: consistent_def all_defs split: all_splits if_splits)
next
  case TimerFired
  with assms show ?thesis
    by (auto simp: consistent_def all_defs split: all_splits if_splits)
next
  case Cleanup
  with assms show ?thesis
    by (auto simp: consistent_def all_defs split: all_splits if_splits list.splits)
next
  case (FetchSettled i outcome)
  show ?thesis
  proof (cases "i < length (tasks s)")
    case False
    with FetchSettled assms(1) show ?thesis by (simp add: fetchSettled_def)
  next
    case True
    from assms(1) True obtain t where "tasks s = [t]" "i = 0" "t = Completed \<or> error s = None"
      by (rule consistent_tasks)
    with FetchSettled assms(1) show ?thesis
      by (auto simp: consistent_def all_defs split: all_splits if_splits)
  qed
next
  case (JsonSettled i cj fj)
  show ?thesis
  proof (cases "i < length (tasks s)")
    case False
    with JsonSettled assms(1) show ?thesis by (simp add: jsonSettled_def)
  next
    case True
    from assms(1) True obtain t where "tasks s = [t]" "i = 0" "t = Completed \<or> error s = None"
      by (rule consistent_tasks)
    with JsonSettled assms(1) show ?thesis
      by (auto simp: consistent_def all_defs split: all_splits if_splits)
  qed
next
  case (GeocodeSettled i name)
  show ?thesis
  proof (cases "i < length (tasks s)")
    case False
    with GeocodeSettled assms(1) show ?thesis by (simp add: geocodeSettled_def)
  next
    case True
    from assms(1) True obtain t where "tasks s = [t]" "i = 0" "t = Completed \<or> error s = None"
      by (rule consistent_tasks)
    with GeocodeSettled assms(1) show ?thesis
      by (auto simp: consistent_def all_defs split: all_splits if_splits)
  qed
qed

lemma consistent_run: "consistent s \<Longrightarrow> delivered env s es \<Longrightarrow> consistent (run env s es)"
  by (induction es arbitrary: s) (auto intro: consistent_step)

lemma error_never_with_weather:
  "delivered env (mount env) es \<Longrightarrow> error (run env (mount env) es) \<noteq> None \<Longrightarrow>
     weather (run env (mount env) es) = None \<and> hourlyForecast (run env (mount env) es) = []"
  using consistent_run [of "mount env" env es] consistent_mount [of env] by (auto simp: consistent_def)

end
